theory Spec2Isabelle
  imports Main "HOL-Library.Word" "HOL-Library.Mapping" "HOL-Library.AList_Mapping"
begin

section \<open>Go values shared by the two packages\<close>

text \<open>
  The repository holds two Go packages with logic of their own: the Lambda handler
  \<^verbatim>\<open>pkg/lambda/functions/oidc-provisioner\<close> (an idempotent "create or find" of an IAM
  OIDC provider) and the package \<^verbatim>\<open>deployer\<close> (policies, package builder, deployment
  orchestrator). Both talk to AWS through narrow interfaces; everything behind an
  interface is outside the repository and is a parameter of the model.

  Naming: a struct is a record with the Go field names. Where two structs share a field
  name, the fields of the SDK's input and output structs and of the result struct carry a
  short prefix, since record fields are global constants here.
\<close>

type_synonym byte = "8 word"

text \<open>
  A Go \<^verbatim>\<open>error\<close> value. \<open>ErrorString\<close> is what \<^verbatim>\<open>errors.New\<close> and a
  \<^verbatim>\<open>fmt.Errorf\<close> without \<^verbatim>\<open>%w\<close> return; \<open>Wrapped p e\<close> is
  \<^verbatim>\<open>fmt.Errorf("p: %w", e)\<close>; the next four constructors are the SDK's typed exceptions
  the code tests for with \<^verbatim>\<open>errors.As\<close>; \<open>CompilationFailed e stderr\<close> is
  \<^verbatim>\<open>fmt.Errorf("compilation failed: %w, stderr: %s", e, stderr)\<close> and
  \<open>PackageSizeExceeds n m\<close> is
  \<^verbatim>\<open>fmt.Errorf("package size %d bytes exceeds maximum %d bytes", n, m)\<close>.
\<close>

datatype go_error =
    ErrorString string
  | Wrapped string go_error
  | NoSuchEntityException string
  | ResourceNotFoundException string
  | ResourceConflictException string
  | ResourceAlreadyExistsException string
  | CompilationFailed go_error string
  | PackageSizeExceeds nat nat

datatype error_type =
    NoSuchEntity
  | ResourceNotFound
  | ResourceConflict
  | ResourceAlreadyExists

text \<open>\<^verbatim>\<open>errors.As(err, &target)\<close>: walks the chain of wrapped errors down to the first
  error of the target's type.\<close>

fun errors_As :: "go_error \<Rightarrow> error_type \<Rightarrow> bool" where
  "errors_As (ErrorString m) t = False"
| "errors_As (Wrapped p e) t = errors_As e t"
| "errors_As (NoSuchEntityException m) t = (t = NoSuchEntity)"
| "errors_As (ResourceNotFoundException m) t = (t = ResourceNotFound)"
| "errors_As (ResourceConflictException m) t = (t = ResourceConflict)"
| "errors_As (ResourceAlreadyExistsException m) t = (t = ResourceAlreadyExists)"
| "errors_As (CompilationFailed e stderr) t = errors_As e t"
| "errors_As (PackageSizeExceeds n m) t = False"

text \<open>
  What a function call of the code ends in: it returns a value with a nil error, it
  returns a non-nil error, or it panics (a nil pointer of an SDK output struct is
  dereferenced).
\<close>

datatype 'a outcome = Ok 'a | Err go_error | Panic

text \<open>
  The world outside the process. \<open>remote\<close> is the state behind the interfaces (the AWS
  account, the local file system); every interface method is a function of that state
  returning its Go result and the next state. \<open>calls\<close> records the interface methods
  invoked, in order, with their inputs; \<open>stdout\<close> records the warnings printed with
  \<^verbatim>\<open>fmt.Printf\<close>, each as its format string and its error argument.
\<close>

record ('s, 'c) world =
  remote :: 's
  calls :: "'c list"
  stdout :: "(string \<times> go_error) list"

definition invoke :: "('s \<Rightarrow> 'r \<times> 's) \<Rightarrow> 'c \<Rightarrow> ('s, 'c) world \<Rightarrow> 'r \<times> ('s, 'c) world" where
  "invoke f c w =
     (case f (remote w) of
        (r, s') \<Rightarrow> (r, w\<lparr>remote := s', calls := calls w @ [c]\<rparr>))"

definition Printf :: "string \<Rightarrow> go_error \<Rightarrow> ('s, 'c) world \<Rightarrow> ('s, 'c) world" where
  "Printf format err w = w\<lparr>stdout := stdout w @ [(format, err)]\<rparr>"

text \<open>\<^verbatim>\<open>strings.HasSuffix\<close> and \<^verbatim>\<open>strings.TrimSuffix\<close> of the Go standard library.\<close>

definition strings_HasSuffix :: "string \<Rightarrow> string \<Rightarrow> bool" where
  "strings_HasSuffix s suffix =
     (length s \<ge> length suffix \<and> drop (length s - length suffix) s = suffix)"

definition strings_TrimSuffix :: "string \<Rightarrow> string \<Rightarrow> string" where
  "strings_TrimSuffix s suffix =
     (if strings_HasSuffix s suffix then take (length s - length suffix) s else s)"

section \<open>The OIDC provisioner handler (handler.go)\<close>

definition statusCreated :: string where "statusCreated = ''created''"
definition statusAlreadyExists :: string where "statusAlreadyExists = ''already_exists''"
definition tagComponentKey :: string where "tagComponentKey = ''rosa:component''"
definition tagComponentValue :: string where "tagComponentValue = ''oidc-provider''"
definition tagClusterKey :: string where "tagClusterKey = ''rosa:cluster-id''"

record OIDCProvisionerRequest =
  IssuerURL :: string
  Thumbprint :: string
  ClusterID :: string
  ClientIDs :: "string list"

record OIDCProvisionerResponse =
  OIDCProviderARN :: string
  Status :: string
  Message :: string

subsection \<open>The IAM interface of the handler\<close>

text \<open>
  The input and output structs of the SDK, with the fields the handler sets or reads. A
  field that the handler passes on or reads as a pointer that may be nil is an option; a
  field the handler fills with \<^verbatim>\<open>aws.String\<close> is a plain string.
\<close>

record CreateOpenIDConnectProviderInput =
  create_Url :: string
  create_ThumbprintList :: "string list"
  create_ClientIDList :: "string list"

record CreateOpenIDConnectProviderOutput =
  create_OpenIDConnectProviderArn :: "string option"

record GetOpenIDConnectProviderInput =
  get_OpenIDConnectProviderArn :: "string option"

record GetOpenIDConnectProviderOutput =
  get_Url :: "string option"

record OpenIDConnectProviderListEntry =
  Arn :: "string option"

record ListOpenIDConnectProvidersOutput =
  OpenIDConnectProviderList :: "OpenIDConnectProviderListEntry list"

record TagOpenIDConnectProviderInput =
  tag_OpenIDConnectProviderArn :: string
  tag_Tags :: "(string \<times> string) list"

datatype iam_call =
    Call_ListOpenIDConnectProviders
  | Call_GetOpenIDConnectProvider GetOpenIDConnectProviderInput
  | Call_CreateOpenIDConnectProvider CreateOpenIDConnectProviderInput
  | Call_TagOpenIDConnectProvider TagOpenIDConnectProviderInput

text \<open>The interface \<^verbatim>\<open>IAMAPI\<close> of the handler's package. The struct \<^verbatim>\<open>Handler\<close> has
  this client as its only field, so a handler is its client.\<close>

record 's Handler =
  CreateOpenIDConnectProvider ::
    "CreateOpenIDConnectProviderInput \<Rightarrow> 's \<Rightarrow> (go_error + CreateOpenIDConnectProviderOutput) \<times> 's"
  GetOpenIDConnectProvider ::
    "GetOpenIDConnectProviderInput \<Rightarrow> 's \<Rightarrow> (go_error + GetOpenIDConnectProviderOutput) \<times> 's"
  ListOpenIDConnectProviders ::
    "'s \<Rightarrow> (go_error + ListOpenIDConnectProvidersOutput) \<times> 's"
  TagOpenIDConnectProvider ::
    "TagOpenIDConnectProviderInput \<Rightarrow> 's \<Rightarrow> (go_error + unit) \<times> 's"

subsection \<open>validateRequest\<close>

text \<open>The two fields of \<^verbatim>\<open>net/url\<close>'s \<^verbatim>\<open>URL\<close> that the handler reads. The parser
  \<^verbatim>\<open>url.Parse\<close> is the standard library's; it is the parameter \<open>parse\<close> below.\<close>

record URL =
  Scheme :: string
  Host :: string

definition validateRequest ::
  "(string \<Rightarrow> go_error + URL) \<Rightarrow> OIDCProvisionerRequest \<Rightarrow> go_error option" where
  "validateRequest parse req =
     (if IssuerURL req = '''' then Some (ErrorString ''issuer_url is required'')
      else case parse (IssuerURL req) of
        Inl err \<Rightarrow> Some (Wrapped ''invalid issuer_url'' err)
      | Inr parsedURL \<Rightarrow>
          if Scheme parsedURL \<noteq> ''https'' then
            Some (ErrorString ''issuer_url must use https scheme'')
          else if Host parsedURL = '''' then
            Some (ErrorString ''issuer_url must have a valid host'')
          else if Thumbprint req = '''' then Some (ErrorString ''thumbprint is required'')
          else if ClusterID req = '''' then Some (ErrorString ''cluster_id is required'')
          else None)"

subsection \<open>checkProviderExists, createProvider, tagProvider\<close>

text \<open>The \<^verbatim>\<open>for\<close> loop of \<^verbatim>\<open>checkProviderExists\<close> over the listed providers: a
  provider whose detail cannot be fetched is skipped; the first provider whose stored URL,
  one trailing slash trimmed, equals the normalized issuer URL is returned.\<close>

fun scanProviders ::
  "'s Handler \<Rightarrow> string \<Rightarrow> OpenIDConnectProviderListEntry list \<Rightarrow> ('s, iam_call) world
     \<Rightarrow> (string \<times> bool) outcome \<times> ('s, iam_call) world" where
  "scanProviders h normalizedIssuerURL [] w = (Ok ('''', False), w)"
| "scanProviders h normalizedIssuerURL (provider # rest) w =
     (case invoke (GetOpenIDConnectProvider h \<lparr>get_OpenIDConnectProviderArn = Arn provider\<rparr>)
             (Call_GetOpenIDConnectProvider \<lparr>get_OpenIDConnectProviderArn = Arn provider\<rparr>) w of
        (Inl err, w') \<Rightarrow> scanProviders h normalizedIssuerURL rest w'
      | (Inr getOutput, w') \<Rightarrow>
          (case get_Url getOutput of
             None \<Rightarrow> scanProviders h normalizedIssuerURL rest w'
           | Some u \<Rightarrow>
               if strings_TrimSuffix u ''/'' = normalizedIssuerURL then
                 (case Arn provider of
                    None \<Rightarrow> (Panic, w')
                  | Some arn \<Rightarrow> (Ok (arn, True), w'))
               else scanProviders h normalizedIssuerURL rest w'))"

definition checkProviderExists ::
  "'s Handler \<Rightarrow> string \<Rightarrow> ('s, iam_call) world
     \<Rightarrow> (string \<times> bool) outcome \<times> ('s, iam_call) world" where
  "checkProviderExists h issuerURL w =
     (let normalizedIssuerURL = strings_TrimSuffix issuerURL ''/'' in
      case invoke (ListOpenIDConnectProviders h) Call_ListOpenIDConnectProviders w of
        (Inl err, w') \<Rightarrow> (Err err, w')
      | (Inr output, w') \<Rightarrow>
          scanProviders h normalizedIssuerURL (OpenIDConnectProviderList output) w')"

text \<open>The \<^verbatim>\<open>input\<close> that \<^verbatim>\<open>createProvider\<close> builds from the request.\<close>

definition createProviderInput :: "OIDCProvisionerRequest \<Rightarrow> CreateOpenIDConnectProviderInput" where
  "createProviderInput req =
     \<lparr>create_Url = strings_TrimSuffix (IssuerURL req) ''/'',
      create_ThumbprintList = [Thumbprint req],
      create_ClientIDList =
        (if length (ClientIDs req) > 0 then ClientIDs req
         else [''openshift'', ''sts.amazonaws.com''])\<rparr>"

definition createProvider ::
  "'s Handler \<Rightarrow> OIDCProvisionerRequest \<Rightarrow> ('s, iam_call) world
     \<Rightarrow> string outcome \<times> ('s, iam_call) world" where
  "createProvider h req w =
     (case invoke (CreateOpenIDConnectProvider h (createProviderInput req))
             (Call_CreateOpenIDConnectProvider (createProviderInput req)) w of
        (Inl err, w') \<Rightarrow> (Err err, w')
      | (Inr output, w') \<Rightarrow>
          (case create_OpenIDConnectProviderArn output of
             None \<Rightarrow> (Panic, w')
           | Some arn \<Rightarrow> (Ok arn, w')))"

text \<open>The \<^verbatim>\<open>input\<close> that \<^verbatim>\<open>tagProvider\<close> builds.\<close>

definition tagProviderInput :: "string \<Rightarrow> string \<Rightarrow> TagOpenIDConnectProviderInput" where
  "tagProviderInput providerARN clusterID =
     \<lparr>tag_OpenIDConnectProviderArn = providerARN,
      tag_Tags =
        (if clusterID \<noteq> '''' then
           [(tagComponentKey, tagComponentValue)] @ [(tagClusterKey, clusterID)]
         else [(tagComponentKey, tagComponentValue)])\<rparr>"

definition tagProvider ::
  "'s Handler \<Rightarrow> string \<Rightarrow> string \<Rightarrow> ('s, iam_call) world
     \<Rightarrow> go_error option \<times> ('s, iam_call) world" where
  "tagProvider h providerARN clusterID w =
     (case invoke (TagOpenIDConnectProvider h (tagProviderInput providerARN clusterID))
             (Call_TagOpenIDConnectProvider (tagProviderInput providerARN clusterID)) w of
        (Inl err, w') \<Rightarrow> (Some err, w')
      | (Inr out, w') \<Rightarrow> (None, w'))"

subsection \<open>Handle\<close>

definition Handle ::
  "(string \<Rightarrow> go_error + URL) \<Rightarrow> 's Handler \<Rightarrow> OIDCProvisionerRequest \<Rightarrow> ('s, iam_call) world
     \<Rightarrow> OIDCProvisionerResponse outcome \<times> ('s, iam_call) world" where
  "Handle parse h req w =
     (case validateRequest parse req of
        Some err \<Rightarrow> (Err (Wrapped ''invalid request'' err), w)
      | None \<Rightarrow>
          (case checkProviderExists h (strings_TrimSuffix (IssuerURL req) ''/'') w of
             (Err err, w1) \<Rightarrow> (Err (Wrapped ''failed to check if provider exists'' err), w1)
           | (Panic, w1) \<Rightarrow> (Panic, w1)
           | (Ok (providerARN, exists), w1) \<Rightarrow>
               if exists then
                 (case tagProvider h providerARN (ClusterID req) w1 of
                    (Some err, w2) \<Rightarrow>
                      (Err (Wrapped ''failed to tag existing provider'' err), w2)
                  | (None, w2) \<Rightarrow>
                      (Ok \<lparr>OIDCProviderARN = providerARN,
                           Status = statusAlreadyExists,
                           Message = ''OIDC provider already exists''\<rparr>, w2))
               else
                 (case createProvider h req w1 of
                    (Err err, w2) \<Rightarrow> (Err (Wrapped ''failed to create OIDC provider'' err), w2)
                  | (Panic, w2) \<Rightarrow> (Panic, w2)
                  | (Ok newARN, w2) \<Rightarrow>
                      (case tagProvider h newARN (ClusterID req) w2 of
                         (Some err, w3) \<Rightarrow>
                           (Ok \<lparr>OIDCProviderARN = newARN,
                                Status = statusCreated,
                                Message = ''OIDC provider created successfully''\<rparr>,
                            Printf ''Warning: failed to tag provider: %v\<newline>'' err w3)
                       | (None, w3) \<Rightarrow>
                           (Ok \<lparr>OIDCProviderARN = newARN,
                                Status = statusCreated,
                                Message = ''OIDC provider created successfully''\<rparr>, w3)))))"

section \<open>The policy generator (policies.go)\<close>

text \<open>A value of the Go type \<^verbatim>\<open>interface{}\<close>, with the dynamic types the policies use.\<close>

datatype interface =
    NilValue
  | StringValue string
  | StringSlice "string list"
  | StringMap "(string, string) mapping"

record Statement =
  Effect :: string
  Principal :: "(string, interface) mapping"
  Action :: interface
  Resource :: interface
  Condition :: "(string, interface) mapping"

record PolicyDocument =
  Version :: string
  Statement :: "Statement list"

text \<open>The \<^verbatim>\<open>policy\<close> values the three generators build. \<^verbatim>\<open>json.Marshal\<close> is the standard
  library's; it is the parameter \<open>marshal\<close>.\<close>

definition LambdaExecutionRoleTrustPolicy :: PolicyDocument where
  "LambdaExecutionRoleTrustPolicy =
     \<lparr>Version = ''2012-10-17'',
      Statement =
        [\<lparr>Effect = ''Allow'',
          Principal = Mapping.of_alist [(''Service'', StringValue ''lambda.amazonaws.com'')],
          Action = StringValue ''sts:AssumeRole'',
          Resource = NilValue,
          Condition = Mapping.empty\<rparr>]\<rparr>"

definition GenerateLambdaExecutionRoleTrustPolicy ::
  "(PolicyDocument \<Rightarrow> go_error + string) \<Rightarrow> go_error + string" where
  "GenerateLambdaExecutionRoleTrustPolicy marshal =
     (case marshal LambdaExecutionRoleTrustPolicy of
        Inl err \<Rightarrow> Inl (Wrapped ''failed to marshal trust policy'' err)
      | Inr policyJSON \<Rightarrow> Inr policyJSON)"

definition OIDCProvisionerPermissionsPolicy :: PolicyDocument where
  "OIDCProvisionerPermissionsPolicy =
     \<lparr>Version = ''2012-10-17'',
      Statement =
        [\<lparr>Effect = ''Allow'',
          Principal = Mapping.empty,
          Action = StringSlice
            [''iam:CreateOpenIDConnectProvider'', ''iam:GetOpenIDConnectProvider'',
             ''iam:ListOpenIDConnectProviders'', ''iam:TagOpenIDConnectProvider''],
          Resource = StringValue ''*'',
          Condition = Mapping.empty\<rparr>,
         \<lparr>Effect = ''Allow'',
          Principal = Mapping.empty,
          Action = StringSlice
            [''logs:CreateLogGroup'', ''logs:CreateLogStream'', ''logs:PutLogEvents''],
          Resource = StringValue ''arn:aws:logs:*:*:*'',
          Condition = Mapping.empty\<rparr>]\<rparr>"

definition GenerateOIDCProvisionerPermissionsPolicy ::
  "(PolicyDocument \<Rightarrow> go_error + string) \<Rightarrow> go_error + string" where
  "GenerateOIDCProvisionerPermissionsPolicy marshal =
     (case marshal OIDCProvisionerPermissionsPolicy of
        Inl err \<Rightarrow> Inl (Wrapped ''failed to marshal permissions policy'' err)
      | Inr policyJSON \<Rightarrow> Inr policyJSON)"

definition LambdaResourcePolicy :: "string \<Rightarrow> string \<Rightarrow> PolicyDocument" where
  "LambdaResourcePolicy clmServiceRoleARN sourceAccountID =
     \<lparr>Version = ''2012-10-17'',
      Statement =
        [\<lparr>Effect = ''Allow'',
          Principal = Mapping.of_alist [(''AWS'', StringValue clmServiceRoleARN)],
          Action = StringValue ''lambda:InvokeFunction'',
          Resource = StringValue ''*'',
          Condition =
            Mapping.of_alist
              [(''StringEquals'',
                StringMap (Mapping.of_alist [(''aws:SourceAccount'', sourceAccountID)]))]\<rparr>]\<rparr>"

definition GenerateLambdaResourcePolicy ::
  "(PolicyDocument \<Rightarrow> go_error + string) \<Rightarrow> string \<Rightarrow> string \<Rightarrow> go_error + string" where
  "GenerateLambdaResourcePolicy marshal clmServiceRoleARN sourceAccountID =
     (if clmServiceRoleARN = '''' then Inl (ErrorString ''CLM service role ARN is required'')
      else if sourceAccountID = '''' then Inl (ErrorString ''source account ID is required'')
      else case marshal (LambdaResourcePolicy clmServiceRoleARN sourceAccountID) of
        Inl err \<Rightarrow> Inl (Wrapped ''failed to marshal resource policy'' err)
      | Inr policyJSON \<Rightarrow> Inr policyJSON)"

section \<open>The package builder (packager.go)\<close>

definition maxPackageSize :: nat where
  "maxPackageSize = 50 * 1024 * 1024"

text \<open>The file mode \<^verbatim>\<open>0755\<close> (octal).\<close>

definition mode_0755 :: "32 word" where
  "mode_0755 = 7 * 64 + 5 * 8 + 5"

text \<open>\<^verbatim>\<open>zip.Deflate\<close>, the compression method 8.\<close>

definition zip_Deflate :: "16 word" where
  "zip_Deflate = 8"

text \<open>\<^verbatim>\<open>fs.FileInfo\<close> as \<^verbatim>\<open>file.Stat\<close> returns it, and \<^verbatim>\<open>zip.FileHeader\<close>: the entry name,
  the compression method, the file mode that \<^verbatim>\<open>SetMode\<close> stores and \<^verbatim>\<open>Mode\<close> reads,
  and the size and time that \<^verbatim>\<open>zip.FileInfoHeader\<close> copies from the file.\<close>

record FileInfo =
  info_Name :: string
  info_Size :: "64 word"
  info_Mode :: "32 word"
  info_ModTime :: int

record FileHeader =
  Name :: string
  Method :: "16 word"
  Mode :: "32 word"
  UncompressedSize64 :: "64 word"
  Modified :: int

definition SetMode :: "32 word \<Rightarrow> FileHeader \<Rightarrow> FileHeader" where
  "SetMode m header = header\<lparr>Mode := m\<rparr>"

text \<open>
  What the builder and the generators use of the standard library and of the operating
  system. The operations on the file system and the compiler run read and change the
  state \<open>'s\<close>; \<open>'f\<close> is an open file. \<open>exec_Run\<close> takes the command line and the
  variables added to the environment and returns the error of \<^verbatim>\<open>cmd.Run\<close> with the
  text written to the standard error stream. \<open>io_Copy\<close> returns the bytes read from the
  file and handed to the archive entry; \<open>zip_Close\<close> takes the entries written to the
  archive writer, each with its header, and returns the bytes the writer's buffer holds
  after \<^verbatim>\<open>Close\<close>.
\<close>

record ('s, 'f) platform =
  json_Marshal :: "PolicyDocument \<Rightarrow> go_error + string"
  sha256_Sum256 :: "byte list \<Rightarrow> byte list"
  filepath_Join :: "string \<Rightarrow> string \<Rightarrow> string"
  os_MkdirTemp :: "string \<Rightarrow> string \<Rightarrow> 's \<Rightarrow> (go_error + string) \<times> 's"
  os_RemoveAll :: "string \<Rightarrow> 's \<Rightarrow> 's"
  exec_Run :: "string list \<Rightarrow> string list \<Rightarrow> 's \<Rightarrow> (go_error option \<times> string) \<times> 's"
  os_Stat :: "string \<Rightarrow> 's \<Rightarrow> go_error option \<times> 's"
  os_Chmod :: "string \<Rightarrow> 32 word \<Rightarrow> 's \<Rightarrow> go_error option \<times> 's"
  os_Open :: "string \<Rightarrow> 's \<Rightarrow> (go_error + 'f) \<times> 's"
  file_Stat :: "'f \<Rightarrow> 's \<Rightarrow> (go_error + FileInfo) \<times> 's"
  file_Close :: "'f \<Rightarrow> 's \<Rightarrow> 's"
  io_Copy :: "'f \<Rightarrow> 's \<Rightarrow> (go_error + byte list) \<times> 's"
  zip_FileInfoHeader :: "FileInfo \<Rightarrow> go_error + FileHeader"
  zip_CreateHeader :: "FileHeader \<Rightarrow> go_error option"
  zip_Close :: "(FileHeader \<times> byte list) list \<Rightarrow> go_error + byte list"

text \<open>\<^verbatim>\<open>fmt.Sprintf("%x", hash)\<close> of a byte array: two lower-case hexadecimal digits a byte.\<close>

definition hex_digit :: "nat \<Rightarrow> char" where
  "hex_digit n = ''0123456789abcdef'' ! (n mod 16)"

definition Sprintf_x :: "byte list \<Rightarrow> string" where
  "Sprintf_x bs = concat (map (\<lambda>b. [hex_digit (unat b div 16), hex_digit (unat b mod 16)]) bs)"

definition compileBinary ::
  "('s, 'f) platform \<Rightarrow> string \<Rightarrow> string \<Rightarrow> 's \<Rightarrow> go_error option \<times> 's" where
  "compileBinary pf sourceDir outputPath s =
     (case exec_Run pf [''go'', ''build'', ''-ldflags'', ''-s -w'', ''-o'', outputPath, sourceDir]
             [''GOOS=linux'', ''GOARCH=amd64'', ''CGO_ENABLED=0'', ''GOTOOLCHAIN=auto''] s of
        ((Some err, stderr), s1) \<Rightarrow> (Some (CompilationFailed err stderr), s1)
      | ((None, stderr), s1) \<Rightarrow>
          (case os_Stat pf outputPath s1 of
             (Some err, s2) \<Rightarrow> (Some (Wrapped ''binary not found after compilation'' err), s2)
           | (None, s2) \<Rightarrow>
               (case os_Chmod pf outputPath mode_0755 s2 of
                  (Some err, s3) \<Rightarrow> (Some (Wrapped ''failed to set binary permissions'' err), s3)
                | (None, s3) \<Rightarrow> (None, s3))))"

text \<open>\<^verbatim>\<open>createZipPackage\<close>; the deferred \<^verbatim>\<open>file.Close()\<close> runs on every return after the
  file was opened.\<close>

definition createZipPackage ::
  "('s, 'f) platform \<Rightarrow> string \<Rightarrow> 's \<Rightarrow> (go_error + byte list) \<times> 's" where
  "createZipPackage pf binaryPath s =
     (case os_Open pf binaryPath s of
        (Inl err, s1) \<Rightarrow> (Inl (Wrapped ''failed to open binary'' err), s1)
      | (Inr file, s1) \<Rightarrow>
          (case file_Stat pf file s1 of
             (Inl err, s2) \<Rightarrow> (Inl (Wrapped ''failed to stat binary'' err), file_Close pf file s2)
           | (Inr fileInfo, s2) \<Rightarrow>
               (case zip_FileInfoHeader pf fileInfo of
                  Inl err \<Rightarrow>
                    (Inl (Wrapped ''failed to create zip header'' err), file_Close pf file s2)
                | Inr header \<Rightarrow>
                    (case zip_CreateHeader pf
                            (SetMode mode_0755 (header\<lparr>Name := ''bootstrap'', Method := zip_Deflate\<rparr>)) of
                       Some err \<Rightarrow>
                         (Inl (Wrapped ''failed to create zip entry'' err), file_Close pf file s2)
                     | None \<Rightarrow>
                         (case io_Copy pf file s2 of
                            (Inl err, s3) \<Rightarrow>
                              (Inl (Wrapped ''failed to write binary to zip'' err),
                               file_Close pf file s3)
                          | (Inr written, s3) \<Rightarrow>
                              (case zip_Close pf
                                      [(SetMode mode_0755
                                          (header\<lparr>Name := ''bootstrap'', Method := zip_Deflate\<rparr>),
                                        written)] of
                                 Inl err \<Rightarrow>
                                   (Inl (Wrapped ''failed to close zip writer'' err),
                                    file_Close pf file s3)
                               | Inr bytes \<Rightarrow> (Inr bytes, file_Close pf file s3)))))))"

text \<open>\<^verbatim>\<open>Build\<close>; the deferred \<^verbatim>\<open>os.RemoveAll(tmpDir)\<close> runs on every return after the
  directory was made.\<close>

definition Build ::
  "('s, 'f) platform \<Rightarrow> string \<Rightarrow> 's \<Rightarrow> (go_error + byte list \<times> string) \<times> 's" where
  "Build pf sourceDir s =
     (case os_MkdirTemp pf '''' ''lambda-build-*'' s of
        (Inl err, s1) \<Rightarrow> (Inl (Wrapped ''failed to create temp directory'' err), s1)
      | (Inr tmpDir, s1) \<Rightarrow>
          (case compileBinary pf sourceDir (filepath_Join pf tmpDir ''bootstrap'') s1 of
             (Some err, s2) \<Rightarrow>
               (Inl (Wrapped ''failed to compile binary'' err), os_RemoveAll pf tmpDir s2)
           | (None, s2) \<Rightarrow>
               (case createZipPackage pf (filepath_Join pf tmpDir ''bootstrap'') s2 of
                  (Inl err, s3) \<Rightarrow>
                    (Inl (Wrapped ''failed to create zip package'' err), os_RemoveAll pf tmpDir s3)
                | (Inr zipData, s3) \<Rightarrow>
                    if length zipData > maxPackageSize then
                      (Inl (PackageSizeExceeds (length zipData) maxPackageSize),
                       os_RemoveAll pf tmpDir s3)
                    else
                      (Inr (zipData, Sprintf_x (sha256_Sum256 pf zipData)),
                       os_RemoveAll pf tmpDir s3))))"

section \<open>The deployment orchestrator (deployer.go)\<close>

record DeploymentConfig =
  FunctionName :: string
  ExecutionRoleName :: string
  SourceDir :: string
  CLMServiceRoleARN :: string
  SourceAccountID :: string
  Runtime :: string
  MemorySize :: "32 word"
  Timeout :: "32 word"
  Architecture :: string
  Tags :: "(string, string) mapping"

record DeploymentResult =
  res_FunctionARN :: string
  res_FunctionName :: string
  res_ExecutionRole :: string
  res_LogGroupName :: string
  res_Status :: string
  res_PackageSize :: nat
  res_PackageChecksum :: string

subsection \<open>The AWS interfaces of the deployer\<close>

text \<open>The SDK's input and output structs, with the fields the deployer sets or reads. A
  pointer field of an output that the deployer dereferences is an option: \<open>None\<close> is the
  nil pointer. An interface method returns a non-nil error or, with a nil error, an output
  struct (the SDK's contract); an output without fields that are read is \<open>unit\<close>.\<close>

record Role =
  role_Arn :: "string option"

record GetRoleInput =
  getrole_RoleName :: string

record GetRoleOutput =
  getrole_Role :: "Role option"

record CreateRoleInput =
  createrole_RoleName :: string
  createrole_AssumeRolePolicyDocument :: string
  createrole_Description :: string

record CreateRoleOutput =
  createrole_Role :: "Role option"

record PutRolePolicyInput =
  putpolicy_RoleName :: string
  putpolicy_PolicyName :: string
  putpolicy_PolicyDocument :: string

record FunctionConfiguration =
  conf_FunctionArn :: "string option"

record GetFunctionInput =
  getfn_FunctionName :: string

record GetFunctionOutput =
  getfn_Configuration :: "FunctionConfiguration option"

record CreateFunctionInput =
  createfn_FunctionName :: string
  createfn_Runtime :: string
  createfn_Role :: string
  createfn_Handler :: string
  createfn_Code_ZipFile :: "byte list"
  createfn_MemorySize :: "32 word"
  createfn_Timeout :: "32 word"
  createfn_Architectures :: "string list"
  createfn_Description :: string

record CreateFunctionOutput =
  createfn_FunctionArn :: "string option"

record UpdateFunctionCodeInput =
  updcode_FunctionName :: string
  updcode_ZipFile :: "byte list"

record UpdateFunctionConfigurationInput =
  updconf_FunctionName :: string
  updconf_Runtime :: string
  updconf_Role :: string
  updconf_Handler :: string
  updconf_MemorySize :: "32 word"
  updconf_Timeout :: "32 word"

record AddPermissionInput =
  perm_FunctionName :: string
  perm_StatementId :: string
  perm_Action :: string
  perm_Principal :: string
  perm_SourceArn :: string

record TagResourceInput =
  tagres_Resource :: string
  tagres_Tags :: "(string, string) mapping"

record LogGroup =
  LogGroupName :: "string option"

record DescribeLogGroupsInput =
  describe_LogGroupNamePrefix :: string

record DescribeLogGroupsOutput =
  LogGroups :: "LogGroup list"

record CreateLogGroupInput =
  createlg_LogGroupName :: string

record PutRetentionPolicyInput =
  retention_LogGroupName :: string
  retention_RetentionInDays :: "32 word"

record TagLogGroupInput =
  taglg_LogGroupName :: string
  taglg_Tags :: "(string, string) mapping"

datatype aws_call =
    Call_GetRole GetRoleInput
  | Call_CreateRole CreateRoleInput
  | Call_PutRolePolicy PutRolePolicyInput
  | Call_GetFunction GetFunctionInput
  | Call_CreateFunction CreateFunctionInput
  | Call_UpdateFunctionCode UpdateFunctionCodeInput
  | Call_UpdateFunctionConfiguration UpdateFunctionConfigurationInput
  | Call_AddPermission AddPermissionInput
  | Call_TagResource TagResourceInput
  | Call_DescribeLogGroups DescribeLogGroupsInput
  | Call_CreateLogGroup CreateLogGroupInput
  | Call_PutRetentionPolicy PutRetentionPolicyInput
  | Call_TagLogGroup TagLogGroupInput

record 's LambdaAPI =
  CreateFunction :: "CreateFunctionInput \<Rightarrow> 's \<Rightarrow> (go_error + CreateFunctionOutput) \<times> 's"
  UpdateFunctionCode :: "UpdateFunctionCodeInput \<Rightarrow> 's \<Rightarrow> (go_error + unit) \<times> 's"
  UpdateFunctionConfiguration ::
    "UpdateFunctionConfigurationInput \<Rightarrow> 's \<Rightarrow> (go_error + unit) \<times> 's"
  GetFunction :: "GetFunctionInput \<Rightarrow> 's \<Rightarrow> (go_error + GetFunctionOutput) \<times> 's"
  AddPermission :: "AddPermissionInput \<Rightarrow> 's \<Rightarrow> (go_error + unit) \<times> 's"
  TagResource :: "TagResourceInput \<Rightarrow> 's \<Rightarrow> (go_error + unit) \<times> 's"

record 's IAMAPI =
  CreateRole :: "CreateRoleInput \<Rightarrow> 's \<Rightarrow> (go_error + CreateRoleOutput) \<times> 's"
  GetRole :: "GetRoleInput \<Rightarrow> 's \<Rightarrow> (go_error + GetRoleOutput) \<times> 's"
  PutRolePolicy :: "PutRolePolicyInput \<Rightarrow> 's \<Rightarrow> (go_error + unit) \<times> 's"

record 's CloudWatchLogsAPI =
  CreateLogGroup :: "CreateLogGroupInput \<Rightarrow> 's \<Rightarrow> (go_error + unit) \<times> 's"
  DescribeLogGroups ::
    "DescribeLogGroupsInput \<Rightarrow> 's \<Rightarrow> (go_error + DescribeLogGroupsOutput) \<times> 's"
  PutRetentionPolicy :: "PutRetentionPolicyInput \<Rightarrow> 's \<Rightarrow> (go_error + unit) \<times> 's"
  TagLogGroup :: "TagLogGroupInput \<Rightarrow> 's \<Rightarrow> (go_error + unit) \<times> 's"

record 's Deployer =
  lambdaClient :: "'s LambdaAPI"
  iamClient :: "'s IAMAPI"
  cwLogsClient :: "'s CloudWatchLogsAPI"
  config :: DeploymentConfig

text \<open>A step that works on the state outside without calling an AWS interface (the
  package build).\<close>

definition on_remote :: "('s \<Rightarrow> 'r \<times> 's) \<Rightarrow> ('s, 'c) world \<Rightarrow> 'r \<times> ('s, 'c) world" where
  "on_remote f w = (case f (remote w) of (r, s') \<Rightarrow> (r, w\<lparr>remote := s'\<rparr>))"

subsection \<open>ensureExecutionRole\<close>

definition ensureExecutionRole ::
  "('s, 'f) platform \<Rightarrow> 's Deployer \<Rightarrow> ('s, aws_call) world
     \<Rightarrow> string outcome \<times> ('s, aws_call) world" where
  "ensureExecutionRole pf d w =
     (case invoke (GetRole (iamClient d) \<lparr>getrole_RoleName = ExecutionRoleName (config d)\<rparr>)
             (Call_GetRole \<lparr>getrole_RoleName = ExecutionRoleName (config d)\<rparr>) w of
        (Inr getOutput, w1) \<Rightarrow>
          (case getrole_Role getOutput of
             None \<Rightarrow> (Panic, w1)
           | Some role \<Rightarrow>
               (case role_Arn role of
                  None \<Rightarrow> (Panic, w1)
                | Some arn \<Rightarrow> (Ok arn, w1)))
      | (Inl err, w1) \<Rightarrow>
          if \<not> errors_As err NoSuchEntity then
            (Err (Wrapped ''failed to check if role exists'' err), w1)
          else
            (case GenerateLambdaExecutionRoleTrustPolicy (json_Marshal pf) of
               Inl err \<Rightarrow> (Err (Wrapped ''failed to generate trust policy'' err), w1)
             | Inr trustPolicy \<Rightarrow>
                 (case invoke
                         (CreateRole (iamClient d)
                            \<lparr>createrole_RoleName = ExecutionRoleName (config d),
                             createrole_AssumeRolePolicyDocument = trustPolicy,
                             createrole_Description =
                               ''Execution role for ROSA OIDC provisioner Lambda''\<rparr>)
                         (Call_CreateRole
                            \<lparr>createrole_RoleName = ExecutionRoleName (config d),
                             createrole_AssumeRolePolicyDocument = trustPolicy,
                             createrole_Description =
                               ''Execution role for ROSA OIDC provisioner Lambda''\<rparr>) w1 of
                    (Inl err, w2) \<Rightarrow> (Err (Wrapped ''failed to create role'' err), w2)
                  | (Inr createOutput, w2) \<Rightarrow>
                      (case createrole_Role createOutput of
                         None \<Rightarrow> (Panic, w2)
                       | Some role \<Rightarrow>
                           (case role_Arn role of
                              None \<Rightarrow> (Panic, w2)
                            | Some roleARN \<Rightarrow>
                                (case GenerateOIDCProvisionerPermissionsPolicy (json_Marshal pf) of
                                   Inl err \<Rightarrow>
                                     (Err (Wrapped ''failed to generate permissions policy'' err), w2)
                                 | Inr permissionsPolicy \<Rightarrow>
                                     (case invoke
                                             (PutRolePolicy (iamClient d)
                                                \<lparr>putpolicy_RoleName = ExecutionRoleName (config d),
                                                 putpolicy_PolicyName = ''OIDCProvisionerPermissions'',
                                                 putpolicy_PolicyDocument = permissionsPolicy\<rparr>)
                                             (Call_PutRolePolicy
                                                \<lparr>putpolicy_RoleName = ExecutionRoleName (config d),
                                                 putpolicy_PolicyName = ''OIDCProvisionerPermissions'',
                                                 putpolicy_PolicyDocument = permissionsPolicy\<rparr>) w2 of
                                        (Inl err, w3) \<Rightarrow>
                                          (Err (Wrapped ''failed to attach permissions policy'' err), w3)
                                      | (Inr out, w3) \<Rightarrow> (Ok roleARN, w3))))))))"

subsection \<open>checkFunctionExists, createFunction, updateFunction\<close>

text \<open>\<^verbatim>\<open>checkFunctionExists\<close> returns the pointer to the output of \<^verbatim>\<open>GetFunction\<close>, or
  nil when the function was not found.\<close>

definition checkFunctionExists ::
  "'s Deployer \<Rightarrow> ('s, aws_call) world
     \<Rightarrow> (go_error + bool \<times> GetFunctionOutput option) \<times> ('s, aws_call) world" where
  "checkFunctionExists d w =
     (case invoke (GetFunction (lambdaClient d) \<lparr>getfn_FunctionName = FunctionName (config d)\<rparr>)
             (Call_GetFunction \<lparr>getfn_FunctionName = FunctionName (config d)\<rparr>) w of
        (Inl err, w1) \<Rightarrow>
          if errors_As err ResourceNotFound then (Inr (False, None), w1)
          else (Inl err, w1)
      | (Inr output, w1) \<Rightarrow> (Inr (True, Some output), w1))"

definition createFunctionInput ::
  "DeploymentConfig \<Rightarrow> byte list \<Rightarrow> string \<Rightarrow> CreateFunctionInput" where
  "createFunctionInput c zipData roleARN =
     \<lparr>createfn_FunctionName = FunctionName c,
      createfn_Runtime = Runtime c,
      createfn_Role = roleARN,
      createfn_Handler = ''bootstrap'',
      createfn_Code_ZipFile = zipData,
      createfn_MemorySize = MemorySize c,
      createfn_Timeout = Timeout c,
      createfn_Architectures = [Architecture c],
      createfn_Description = ''ROSA OIDC provider provisioner''\<rparr>"

definition createFunction ::
  "'s Deployer \<Rightarrow> byte list \<Rightarrow> string \<Rightarrow> ('s, aws_call) world
     \<Rightarrow> string outcome \<times> ('s, aws_call) world" where
  "createFunction d zipData roleARN w =
     (case invoke (CreateFunction (lambdaClient d) (createFunctionInput (config d) zipData roleARN))
             (Call_CreateFunction (createFunctionInput (config d) zipData roleARN)) w of
        (Inl err, w1) \<Rightarrow> (Err err, w1)
      | (Inr output, w1) \<Rightarrow>
          (case createfn_FunctionArn output of
             None \<Rightarrow> (Panic, w1)
           | Some arn \<Rightarrow> (Ok arn, w1)))"

definition updateFunctionCodeInput :: "DeploymentConfig \<Rightarrow> byte list \<Rightarrow> UpdateFunctionCodeInput" where
  "updateFunctionCodeInput c zipData =
     \<lparr>updcode_FunctionName = FunctionName c, updcode_ZipFile = zipData\<rparr>"

definition updateFunctionConfigurationInput ::
  "DeploymentConfig \<Rightarrow> string \<Rightarrow> UpdateFunctionConfigurationInput" where
  "updateFunctionConfigurationInput c roleARN =
     \<lparr>updconf_FunctionName = FunctionName c,
      updconf_Runtime = Runtime c,
      updconf_Role = roleARN,
      updconf_Handler = ''bootstrap'',
      updconf_MemorySize = MemorySize c,
      updconf_Timeout = Timeout c\<rparr>"

definition updateFunction ::
  "'s Deployer \<Rightarrow> byte list \<Rightarrow> string \<Rightarrow> ('s, aws_call) world
     \<Rightarrow> go_error option \<times> ('s, aws_call) world" where
  "updateFunction d zipData roleARN w =
     (case invoke (UpdateFunctionCode (lambdaClient d) (updateFunctionCodeInput (config d) zipData))
             (Call_UpdateFunctionCode (updateFunctionCodeInput (config d) zipData)) w of
        (Inl err, w1) \<Rightarrow> (Some (Wrapped ''failed to update function code'' err), w1)
      | (Inr out, w1) \<Rightarrow>
          (case invoke
                  (UpdateFunctionConfiguration (lambdaClient d)
                     (updateFunctionConfigurationInput (config d) roleARN))
                  (Call_UpdateFunctionConfiguration
                     (updateFunctionConfigurationInput (config d) roleARN)) w1 of
             (Inl err, w2) \<Rightarrow> (Some (Wrapped ''failed to update function configuration'' err), w2)
           | (Inr out', w2) \<Rightarrow> (None, w2)))"

subsection \<open>addResourcePolicy\<close>

definition addPermissionInput :: "DeploymentConfig \<Rightarrow> AddPermissionInput" where
  "addPermissionInput c =
     \<lparr>perm_FunctionName = FunctionName c,
      perm_StatementId = ''AllowCLMInvoke'',
      perm_Action = ''lambda:InvokeFunction'',
      perm_Principal = ''arn:aws:iam::'' @ SourceAccountID c @ '':root'',
      perm_SourceArn = CLMServiceRoleARN c\<rparr>"

definition addResourcePolicy ::
  "('s, 'f) platform \<Rightarrow> 's Deployer \<Rightarrow> ('s, aws_call) world
     \<Rightarrow> go_error option \<times> ('s, aws_call) world" where
  "addResourcePolicy pf d w =
     (case GenerateLambdaResourcePolicy (json_Marshal pf)
             (CLMServiceRoleARN (config d)) (SourceAccountID (config d)) of
        Inl err \<Rightarrow> (Some err, w)
      | Inr policy \<Rightarrow>
          (case invoke (AddPermission (lambdaClient d) (addPermissionInput (config d)))
                  (Call_AddPermission (addPermissionInput (config d))) w of
             (Inl err, w1) \<Rightarrow>
               if errors_As err ResourceConflict then (None, w1) else (Some err, w1)
           | (Inr out, w1) \<Rightarrow> (None, w1)))"

subsection \<open>ensureLogGroup, tagFunction\<close>

text \<open>The \<^verbatim>\<open>for\<close> loop of \<^verbatim>\<open>ensureLogGroup\<close> over the listed log groups: \<open>Some True\<close>
  when a group has exactly the name, \<open>Some False\<close> when the loop ends, \<open>None\<close> when a
  group before the match has no name (the dereference panics).\<close>

fun logGroupListed :: "string \<Rightarrow> LogGroup list \<Rightarrow> bool option" where
  "logGroupListed logGroupName [] = Some False"
| "logGroupListed logGroupName (lg # rest) =
     (case LogGroupName lg of
        None \<Rightarrow> None
      | Some n \<Rightarrow> if n = logGroupName then Some True else logGroupListed logGroupName rest)"

definition ensureLogGroup ::
  "'s Deployer \<Rightarrow> string \<Rightarrow> ('s, aws_call) world \<Rightarrow> unit outcome \<times> ('s, aws_call) world" where
  "ensureLogGroup d logGroupName w =
     (case invoke (DescribeLogGroups (cwLogsClient d) \<lparr>describe_LogGroupNamePrefix = logGroupName\<rparr>)
             (Call_DescribeLogGroups \<lparr>describe_LogGroupNamePrefix = logGroupName\<rparr>) w of
        (described, w1) \<Rightarrow>
          (case (case described of
                   Inl err \<Rightarrow> Some False
                 | Inr describeOutput \<Rightarrow>
                     if length (LogGroups describeOutput) > 0 then
                       logGroupListed logGroupName (LogGroups describeOutput)
                     else Some False) of
             None \<Rightarrow> (Panic, w1)
           | Some True \<Rightarrow> (Ok (), w1)
           | Some False \<Rightarrow>
               (case invoke (CreateLogGroup (cwLogsClient d) \<lparr>createlg_LogGroupName = logGroupName\<rparr>)
                       (Call_CreateLogGroup \<lparr>createlg_LogGroupName = logGroupName\<rparr>) w1 of
                  (created, w2) \<Rightarrow>
                    (case (case created of
                             Inl err \<Rightarrow>
                               if \<not> errors_As err ResourceAlreadyExists then
                                 Some (Wrapped ''failed to create log group'' err)
                               else None
                           | Inr out \<Rightarrow> None) of
                       Some err \<Rightarrow> (Err err, w2)
                     | None \<Rightarrow>
                         (case invoke
                                 (PutRetentionPolicy (cwLogsClient d)
                                    \<lparr>retention_LogGroupName = logGroupName,
                                     retention_RetentionInDays = 90\<rparr>)
                                 (Call_PutRetentionPolicy
                                    \<lparr>retention_LogGroupName = logGroupName,
                                     retention_RetentionInDays = 90\<rparr>) w2 of
                            (Inl err, w3) \<Rightarrow>
                              (Err (Wrapped ''failed to set retention policy'' err), w3)
                          | (Inr out, w3) \<Rightarrow>
                              if \<not> Mapping.is_empty (Tags (config d)) then
                                (case invoke
                                        (TagLogGroup (cwLogsClient d)
                                           \<lparr>taglg_LogGroupName = logGroupName,
                                            taglg_Tags = Tags (config d)\<rparr>)
                                        (Call_TagLogGroup
                                           \<lparr>taglg_LogGroupName = logGroupName,
                                            taglg_Tags = Tags (config d)\<rparr>) w3 of
                                   (Inl err, w4) \<Rightarrow>
                                     (Ok (),
                                      Printf ''Warning: failed to tag log group: %v\<newline>'' err w4)
                                 | (Inr out', w4) \<Rightarrow> (Ok (), w4))
                              else (Ok (), w3))))))"

definition tagFunction ::
  "'s Deployer \<Rightarrow> string \<Rightarrow> ('s, aws_call) world \<Rightarrow> go_error option \<times> ('s, aws_call) world" where
  "tagFunction d functionARN w =
     (case invoke
             (TagResource (lambdaClient d)
                \<lparr>tagres_Resource = functionARN, tagres_Tags = Tags (config d)\<rparr>)
             (Call_TagResource \<lparr>tagres_Resource = functionARN, tagres_Tags = Tags (config d)\<rparr>) w of
        (Inl err, w1) \<Rightarrow> (Some err, w1)
      | (Inr out, w1) \<Rightarrow> (None, w1))"

subsection \<open>Deploy\<close>

text \<open>The second half of \<^verbatim>\<open>Deploy\<close>, from the comment "Step 4: Add resource-based policy"
  to the end: the invocation policy, the log group, the function's tags and the result.
  Both branches of the create-or-update step continue here.\<close>

definition Deploy_auxiliary_steps ::
  "('s, 'f) platform \<Rightarrow> 's Deployer \<Rightarrow> string \<Rightarrow> string \<Rightarrow> string \<Rightarrow> byte list \<Rightarrow> string
     \<Rightarrow> ('s, aws_call) world \<Rightarrow> DeploymentResult outcome \<times> ('s, aws_call) world" where
  "Deploy_auxiliary_steps pf d functionARN status roleARN zipData checksum w =
     (let w1 =
            (if CLMServiceRoleARN (config d) \<noteq> '''' \<and> SourceAccountID (config d) \<noteq> '''' then
               (case addResourcePolicy pf d w of
                  (Some err, w') \<Rightarrow>
                    Printf ''Warning: failed to add resource policy: %v\<newline>'' err w'
                | (None, w') \<Rightarrow> w')
             else w);
          logGroupName = ''/aws/lambda/'' @ FunctionName (config d)
      in case ensureLogGroup d logGroupName w1 of
           (Panic, w2) \<Rightarrow> (Panic, w2)
         | (logged, w2) \<Rightarrow>
             (let w3 =
                    (case logged of
                       Err err \<Rightarrow>
                         Printf ''Warning: failed to ensure log group: %v\<newline>'' err w2
                     | _ \<Rightarrow> w2);
                  w4 =
                    (if \<not> Mapping.is_empty (Tags (config d)) then
                       (case tagFunction d functionARN w3 of
                          (Some err, w') \<Rightarrow>
                            Printf ''Warning: failed to tag function: %v\<newline>'' err w'
                        | (None, w') \<Rightarrow> w')
                     else w3)
              in (Ok \<lparr>res_FunctionARN = functionARN,
                      res_FunctionName = FunctionName (config d),
                      res_ExecutionRole = roleARN,
                      res_LogGroupName = logGroupName,
                      res_Status = status,
                      res_PackageSize = length zipData,
                      res_PackageChecksum = checksum\<rparr>, w4)))"

definition Deploy ::
  "('s, 'f) platform \<Rightarrow> 's Deployer \<Rightarrow> ('s, aws_call) world
     \<Rightarrow> DeploymentResult outcome \<times> ('s, aws_call) world" where
  "Deploy pf d w =
     (case ensureExecutionRole pf d w of
        (Err err, w1) \<Rightarrow> (Err (Wrapped ''failed to ensure execution role'' err), w1)
      | (Panic, w1) \<Rightarrow> (Panic, w1)
      | (Ok roleARN, w1) \<Rightarrow>
          (case on_remote (Build pf (SourceDir (config d))) w1 of
             (Inl err, w2) \<Rightarrow> (Err (Wrapped ''failed to build Lambda package'' err), w2)
           | (Inr (zipData, checksum), w2) \<Rightarrow>
               (case checkFunctionExists d w2 of
                  (Inl err, w3) \<Rightarrow>
                    (Err (Wrapped ''failed to check if function exists'' err), w3)
                | (Inr (exists, existingFunc), w3) \<Rightarrow>
                    if exists then
                      (case existingFunc of
                         None \<Rightarrow> (Panic, w3)
                       | Some found \<Rightarrow>
                           (case getfn_Configuration found of
                              None \<Rightarrow> (Panic, w3)
                            | Some configuration \<Rightarrow>
                                (case conf_FunctionArn configuration of
                                   None \<Rightarrow> (Panic, w3)
                                 | Some functionARN \<Rightarrow>
                                     (case updateFunction d zipData roleARN w3 of
                                        (Some err, w4) \<Rightarrow>
                                          (Err (Wrapped ''failed to update function'' err), w4)
                                      | (None, w4) \<Rightarrow>
                                          Deploy_auxiliary_steps pf d functionARN ''updated''
                                            roleARN zipData checksum w4))))
                    else
                      (case createFunction d zipData roleARN w3 of
                         (Err err, w4) \<Rightarrow> (Err (Wrapped ''failed to create function'' err), w4)
                       | (Panic, w4) \<Rightarrow> (Panic, w4)
                       | (Ok functionARN, w4) \<Rightarrow>
                           Deploy_auxiliary_steps pf d functionARN ''created''
                             roleARN zipData checksum w4))))"

section \<open>Predicates and rule lists that the statements use\<close>

text \<open>The calls of the handler that create a provider.\<close>

fun is_create_call :: "iam_call \<Rightarrow> bool" where
  "is_create_call (Call_CreateOpenIDConnectProvider i) = True"
| "is_create_call c = False"

text \<open>The log groups client keeps the SDK's promise that a listed log group carries its
  name: no \<^verbatim>\<open>LogGroupName\<close> in the output of a successful \<^verbatim>\<open>DescribeLogGroups\<close> is nil.
  Under it the loop of \<^verbatim>\<open>ensureLogGroup\<close> dereferences no nil pointer.\<close>

definition log_groups_named :: "'s CloudWatchLogsAPI \<Rightarrow> bool" where
  "log_groups_named c =
     (\<forall>i s out s'. DescribeLogGroups c i s = (Inr out, s') \<longrightarrow>
        (\<forall>lg \<in> set (LogGroups out). LogGroupName lg \<noteq> None))"

subsection \<open>The validation rules, in the order the code checks them\<close>

text \<open>Each rule with what violates it and with the error that names it. The parsed URL is
  looked at only when the issuer URL parses.\<close>

datatype validation_rule =
    Issuer_URL_given
  | Issuer_URL_parses
  | Issuer_URL_scheme_is_https
  | Issuer_URL_has_host
  | Thumbprint_given
  | Cluster_ID_given

definition rules_in_order :: "validation_rule list" where
  "rules_in_order =
     [Issuer_URL_given, Issuer_URL_parses, Issuer_URL_scheme_is_https, Issuer_URL_has_host,
      Thumbprint_given, Cluster_ID_given]"

fun violated ::
  "(string \<Rightarrow> go_error + URL) \<Rightarrow> OIDCProvisionerRequest \<Rightarrow> validation_rule \<Rightarrow> bool" where
  "violated parse req Issuer_URL_given = (IssuerURL req = '''')"
| "violated parse req Issuer_URL_parses =
     (case parse (IssuerURL req) of Inl err \<Rightarrow> True | Inr u \<Rightarrow> False)"
| "violated parse req Issuer_URL_scheme_is_https =
     (case parse (IssuerURL req) of Inl err \<Rightarrow> False | Inr u \<Rightarrow> Scheme u \<noteq> ''https'')"
| "violated parse req Issuer_URL_has_host =
     (case parse (IssuerURL req) of Inl err \<Rightarrow> False | Inr u \<Rightarrow> Host u = '''')"
| "violated parse req Thumbprint_given = (Thumbprint req = '''')"
| "violated parse req Cluster_ID_given = (ClusterID req = '''')"

fun rule_error ::
  "(string \<Rightarrow> go_error + URL) \<Rightarrow> OIDCProvisionerRequest \<Rightarrow> validation_rule \<Rightarrow> go_error" where
  "rule_error parse req Issuer_URL_given = ErrorString ''issuer_url is required''"
| "rule_error parse req Issuer_URL_parses =
     (case parse (IssuerURL req) of
        Inl err \<Rightarrow> Wrapped ''invalid issuer_url'' err
      | Inr u \<Rightarrow> ErrorString ''invalid issuer_url'')"
| "rule_error parse req Issuer_URL_scheme_is_https = ErrorString ''issuer_url must use https scheme''"
| "rule_error parse req Issuer_URL_has_host = ErrorString ''issuer_url must have a valid host''"
| "rule_error parse req Thumbprint_given = ErrorString ''thumbprint is required''"
| "rule_error parse req Cluster_ID_given = ErrorString ''cluster_id is required''"

subsection \<open>The five validation rules as the specification lists them\<close>

datatype claimed_rule =
    Missing_issuer_URL
  | Non_absolute_issuer_URL
  | Non_secure_scheme_issuer_URL
  | Missing_thumbprint
  | Missing_cluster_identifier

definition claimed_rules_in_order :: "claimed_rule list" where
  "claimed_rules_in_order =
     [Missing_issuer_URL, Non_absolute_issuer_URL, Non_secure_scheme_issuer_URL,
      Missing_thumbprint, Missing_cluster_identifier]"

text \<open>\<open>absolute\<close> says which parsed URLs count as absolute: \<^verbatim>\<open>net/url\<close>'s own
  \<^verbatim>\<open>IsAbs\<close> (the scheme is not empty), or the reading that an absolute URL names a
  host.\<close>

fun claimed_violated ::
  "(URL \<Rightarrow> bool) \<Rightarrow> (string \<Rightarrow> go_error + URL) \<Rightarrow> OIDCProvisionerRequest \<Rightarrow> claimed_rule \<Rightarrow> bool" where
  "claimed_violated absolute parse req Missing_issuer_URL = (IssuerURL req = '''')"
| "claimed_violated absolute parse req Non_absolute_issuer_URL =
     (case parse (IssuerURL req) of Inl err \<Rightarrow> True | Inr u \<Rightarrow> \<not> absolute u)"
| "claimed_violated absolute parse req Non_secure_scheme_issuer_URL =
     (case parse (IssuerURL req) of Inl err \<Rightarrow> False | Inr u \<Rightarrow> Scheme u \<noteq> ''https'')"
| "claimed_violated absolute parse req Missing_thumbprint = (Thumbprint req = '''')"
| "claimed_violated absolute parse req Missing_cluster_identifier = (ClusterID req = '''')"

text \<open>\<^verbatim>\<open>URL.IsAbs\<close> of \<^verbatim>\<open>net/url\<close>: the URL has a scheme.\<close>

definition IsAbs :: "URL \<Rightarrow> bool" where
  "IsAbs u = (Scheme u \<noteq> '''')"

text \<open>The other reading of "absolute": the URL names a host.\<close>

definition names_host :: "URL \<Rightarrow> bool" where
  "names_host u = (Host u \<noteq> '''')"

section \<open>Sample instances for concrete runs\<close>

text \<open>Concrete clients, platforms and inputs. The theorems are stated for every client and
  every platform; the instances below show that their hypotheses can be met, and give the
  inputs at which a statement fails.\<close>

text \<open>The results of \<^verbatim>\<open>url.Parse\<close> on the URLs used below, scheme and host as
  \<^verbatim>\<open>net/url\<close> returns them: \<^verbatim>\<open>https://\<close> parses, with an empty host;
  \<^verbatim>\<open>example.com\<close> parses as a path, with an empty scheme and an empty host. On any other
  string the table answers with an error; no statement uses it there.\<close>

definition url_Parse_sample :: "string \<Rightarrow> go_error + URL" where
  "url_Parse_sample s =
     (if s \<in> {''https://example.com'', ''https://example.com/'', ''https://example.com//''}
        then Inr \<lparr>Scheme = ''https'', Host = ''example.com''\<rparr>
      else if s = ''https://'' then Inr \<lparr>Scheme = ''https'', Host = ''''\<rparr>
      else if s = ''http://'' then Inr \<lparr>Scheme = ''http'', Host = ''''\<rparr>
      else if s = ''http://example.com'' then Inr \<lparr>Scheme = ''http'', Host = ''example.com''\<rparr>
      else if s = ''example.com'' then Inr \<lparr>Scheme = '''', Host = ''''\<rparr>
      else Inl (ErrorString ''missing protocol scheme''))"

text \<open>An in-memory stand-in for IAM behind the handler's interface: the state is the list of
  the providers, each with its ARN and its stored URL; tagging fails when \<open>tagFails\<close> is
  set.\<close>

definition sample_handler :: "bool \<Rightarrow> ((string \<times> string) list) Handler" where
  "sample_handler tagFails =
     \<lparr>CreateOpenIDConnectProvider = (\<lambda>i s.
        (Inr \<lparr>create_OpenIDConnectProviderArn = Some (''arn:'' @ create_Url i)\<rparr>,
         s @ [(''arn:'' @ create_Url i, create_Url i)])),
      GetOpenIDConnectProvider = (\<lambda>i s.
        (case get_OpenIDConnectProviderArn i of
           None \<Rightarrow> Inl (ErrorString ''ValidationError'')
         | Some a \<Rightarrow>
             (case map_of s a of
                None \<Rightarrow> Inl (NoSuchEntityException a)
              | Some u \<Rightarrow> Inr \<lparr>get_Url = Some u\<rparr>), s)),
      ListOpenIDConnectProviders = (\<lambda>s.
        (Inr \<lparr>OpenIDConnectProviderList = map (\<lambda>p. \<lparr>Arn = Some (fst p)\<rparr>) s\<rparr>, s)),
      TagOpenIDConnectProvider = (\<lambda>i s.
        (if tagFails then Inl (ErrorString ''AccessDenied'') else Inr (), s))\<rparr>"

text \<open>The world before a run: nothing called, nothing printed.\<close>

definition initial_world :: "'s \<Rightarrow> ('s, 'c) world" where
  "initial_world s = \<lparr>remote = s, calls = [], stdout = []\<rparr>"

definition sample_request :: OIDCProvisionerRequest where
  "sample_request = \<lparr>IssuerURL = ''https://example.com/'', Thumbprint = ''t'', ClusterID = ''c'', ClientIDs = []\<rparr>"

text \<open>An in-memory stand-in for the AWS account behind the deployer's interfaces: the
  names of the roles, functions and log groups that exist, and the names of the operations
  that fail.\<close>

record account =
  acct_roles :: "string list"
  acct_functions :: "string list"
  acct_log_groups :: "string list"
  acct_failing :: "string list"

definition failing :: "string \<Rightarrow> account \<Rightarrow> go_error + 'a \<Rightarrow> go_error + 'a" where
  "failing operation s r =
     (if operation \<in> set (acct_failing s) then Inl (ErrorString ''AccessDenied'') else r)"

definition sample_iam :: "account IAMAPI" where
  "sample_iam =
     \<lparr>CreateRole = (\<lambda>i s.
        (failing ''CreateRole'' s
           (Inr \<lparr>createrole_Role = Some \<lparr>role_Arn = Some (''arn:role/'' @ createrole_RoleName i)\<rparr>\<rparr>),
         s\<lparr>acct_roles := acct_roles s @ [createrole_RoleName i]\<rparr>)),
      GetRole = (\<lambda>i s.
        (failing ''GetRole'' s
           (if getrole_RoleName i \<in> set (acct_roles s) then
              Inr \<lparr>getrole_Role = Some \<lparr>role_Arn = Some (''arn:role/'' @ getrole_RoleName i)\<rparr>\<rparr>
            else Inl (NoSuchEntityException (getrole_RoleName i))), s)),
      PutRolePolicy = (\<lambda>i s. (failing ''PutRolePolicy'' s (Inr ()), s))\<rparr>"

definition sample_lambda :: "account LambdaAPI" where
  "sample_lambda =
     \<lparr>CreateFunction = (\<lambda>i s.
        (failing ''CreateFunction'' s
           (Inr \<lparr>createfn_FunctionArn = Some (''arn:function:'' @ createfn_FunctionName i)\<rparr>),
         s\<lparr>acct_functions := acct_functions s @ [createfn_FunctionName i]\<rparr>)),
      UpdateFunctionCode = (\<lambda>i s. (failing ''UpdateFunctionCode'' s (Inr ()), s)),
      UpdateFunctionConfiguration = (\<lambda>i s.
        (failing ''UpdateFunctionConfiguration'' s (Inr ()), s)),
      GetFunction = (\<lambda>i s.
        (failing ''GetFunction'' s
           (if getfn_FunctionName i \<in> set (acct_functions s) then
              Inr \<lparr>getfn_Configuration =
                     Some \<lparr>conf_FunctionArn = Some (''arn:function:'' @ getfn_FunctionName i)\<rparr>\<rparr>
            else Inl (ResourceNotFoundException (getfn_FunctionName i))), s)),
      AddPermission = (\<lambda>i s. (failing ''AddPermission'' s (Inr ()), s)),
      TagResource = (\<lambda>i s. (failing ''TagResource'' s (Inr ()), s))\<rparr>"

definition sample_logs :: "account CloudWatchLogsAPI" where
  "sample_logs =
     \<lparr>CreateLogGroup = (\<lambda>i s.
        (failing ''CreateLogGroup'' s
           (if createlg_LogGroupName i \<in> set (acct_log_groups s) then
              Inl (ResourceAlreadyExistsException (createlg_LogGroupName i))
            else Inr ()),
         if createlg_LogGroupName i \<in> set (acct_log_groups s) then s
         else s\<lparr>acct_log_groups := acct_log_groups s @ [createlg_LogGroupName i]\<rparr>)),
      DescribeLogGroups = (\<lambda>i s.
        (failing ''DescribeLogGroups'' s
           (Inr \<lparr>LogGroups =
                  map (\<lambda>n. \<lparr>LogGroupName = Some n\<rparr>)
                    (filter (\<lambda>n. take (length (describe_LogGroupNamePrefix i)) n
                                   = describe_LogGroupNamePrefix i)
                       (acct_log_groups s))\<rparr>), s)),
      PutRetentionPolicy = (\<lambda>i s. (failing ''PutRetentionPolicy'' s (Inr ()), s)),
      TagLogGroup = (\<lambda>i s. (failing ''TagLogGroup'' s (Inr ()), s))\<rparr>"

text \<open>A stand-in for the platform: the compiler writes a three-byte binary, the archive is
  the bytes of its entries, the digest is one byte. None of the theorems below depends on
  these choices; they only give the hypotheses an instance.\<close>

definition sample_platform :: "(account, string) platform" where
  "sample_platform =
     \<lparr>json_Marshal = (\<lambda>doc. Inr (Version doc)),
      sha256_Sum256 = (\<lambda>bs. [of_nat (length bs)]),
      filepath_Join = (\<lambda>a b. a @ ''/'' @ b),
      os_MkdirTemp = (\<lambda>dir pattern s. (failing ''MkdirTemp'' s (Inr ''/tmp/b1''), s)),
      os_RemoveAll = (\<lambda>path s. s),
      exec_Run = (\<lambda>argv env s.
        ((if ''go build'' \<in> set (acct_failing s) then Some (ErrorString ''exit status 1'')
          else None, ''''), s)),
      os_Stat = (\<lambda>path s. (None, s)),
      os_Chmod = (\<lambda>path m s. (None, s)),
      os_Open = (\<lambda>path s. (Inr path, s)),
      file_Stat = (\<lambda>file s.
        (Inr \<lparr>info_Name = file, info_Size = 3, info_Mode = mode_0755, info_ModTime = 0\<rparr>, s)),
      file_Close = (\<lambda>file s. s),
      io_Copy = (\<lambda>file s. (Inr [1, 2, 3], s)),
      zip_FileInfoHeader = (\<lambda>fi.
        Inr \<lparr>Name = info_Name fi, Method = 0, Mode = info_Mode fi,
             UncompressedSize64 = info_Size fi, Modified = info_ModTime fi\<rparr>),
      zip_CreateHeader = (\<lambda>header. None),
      zip_Close = (\<lambda>entries. Inr (concat (map snd entries)))\<rparr>"

definition sample_config :: DeploymentConfig where
  "sample_config =
     \<lparr>FunctionName = ''fn'', ExecutionRoleName = ''role'', SourceDir = ''./src'',
      CLMServiceRoleARN = ''arn:clm'', SourceAccountID = ''123'',
      Runtime = ''provided.al2023'', MemorySize = 128, Timeout = 60,
      Architecture = ''x86_64'', Tags = Mapping.of_alist [(''env'', ''test'')]\<rparr>"

definition sample_deployer :: "account Deployer" where
  "sample_deployer =
     \<lparr>lambdaClient = sample_lambda, iamClient = sample_iam, cwLogsClient = sample_logs,
      config = sample_config\<rparr>"

definition sample_account :: account where
  "sample_account =
     \<lparr>acct_roles = [''role''], acct_functions = [], acct_log_groups = [], acct_failing = []\<rparr>"

unbundle bit_operations_syntax

section \<open>Evaluation rules and general lemmas\<close>

text \<open>The defining equations that a concrete run unfolds.\<close>

lemmas handler_eval =
  Handle_def validateRequest_def checkProviderExists_def createProvider_def
  createProviderInput_def tagProvider_def tagProviderInput_def invoke_def Printf_def
  strings_TrimSuffix_def strings_HasSuffix_def statusCreated_def statusAlreadyExists_def
  tagComponentKey_def tagComponentValue_def tagClusterKey_def
  url_Parse_sample_def sample_handler_def initial_world_def sample_request_def

lemmas deployer_eval =
  Deploy_def Deploy_auxiliary_steps_def ensureExecutionRole_def checkFunctionExists_def
  createFunction_def createFunctionInput_def updateFunction_def updateFunctionCodeInput_def
  updateFunctionConfigurationInput_def addResourcePolicy_def addPermissionInput_def
  ensureLogGroup_def tagFunction_def on_remote_def invoke_def Printf_def
  Build_def compileBinary_def createZipPackage_def SetMode_def Sprintf_x_def hex_digit_def
  maxPackageSize_def mode_0755_def zip_Deflate_def
  GenerateLambdaResourcePolicy_def GenerateLambdaExecutionRoleTrustPolicy_def
  GenerateOIDCProvisionerPermissionsPolicy_def LambdaResourcePolicy_def
  LambdaExecutionRoleTrustPolicy_def OIDCProvisionerPermissionsPolicy_def
  sample_platform_def sample_deployer_def sample_config_def sample_account_def
  sample_iam_def sample_lambda_def sample_logs_def failing_def initial_world_def Let_def Mapping.is_empty_def

lemma invoke_calls: "invoke f c w = (r, w') \<Longrightarrow> calls w' = calls w @ [c]"
  by (auto simp: invoke_def split: prod.splits)

lemma Printf_calls: "calls (Printf format err w) = calls w"
  by (simp add: Printf_def)

lemma strings_TrimSuffix_append: "strings_TrimSuffix (s @ suffix) suffix = s"
  by (simp add: strings_TrimSuffix_def strings_HasSuffix_def)

lemma TrimSuffix_id: "\<not> strings_HasSuffix s suffix \<Longrightarrow> strings_TrimSuffix s suffix = s"
  by (simp add: strings_TrimSuffix_def)

lemma strings_HasSuffix_iff: "strings_HasSuffix s suffix \<longleftrightarrow> (\<exists>t. s = t @ suffix)"
proof
  assume "strings_HasSuffix s suffix"
  then have "s = take (length s - length suffix) s @ suffix"
    by (metis append_take_drop_id strings_HasSuffix_def)
  then show "\<exists>t. s = t @ suffix" ..
next
  assume "\<exists>t. s = t @ suffix"
  then show "strings_HasSuffix s suffix"
    by (auto simp: strings_HasSuffix_def)
qed

lemma strings_TrimSuffix_fixed:
  "suffix \<noteq> [] \<Longrightarrow> strings_TrimSuffix s suffix = s \<longleftrightarrow> \<not> strings_HasSuffix s suffix"
  by (auto simp: strings_TrimSuffix_def strings_HasSuffix_def)

text \<open>Stripping a trailing slash twice differs from stripping it once exactly on the
  strings that end in two slashes.\<close>

lemma TrimSuffix_twice_eq_once:
  "strings_TrimSuffix (strings_TrimSuffix s ''/'') ''/'' = strings_TrimSuffix s ''/''
     \<longleftrightarrow> \<not> strings_HasSuffix s ''//''"
proof (cases "strings_HasSuffix s ''/''")
  case True
  then obtain t where s: "s = t @ ''/''"
    by (auto simp: strings_HasSuffix_iff)
  have "strings_HasSuffix s ''//'' \<longleftrightarrow> strings_HasSuffix t ''/''"
    by (auto simp: s strings_HasSuffix_iff)
  then show ?thesis
    by (simp add: s strings_TrimSuffix_append strings_TrimSuffix_fixed)
next
  case False
  then have "\<not> strings_HasSuffix s ''//''"
    by (auto simp: strings_HasSuffix_iff)
  with False show ?thesis
    by (simp add: TrimSuffix_id)
qed

section \<open>Theorems about the handler\<close>

lemma scanProviders_append:
  "scanProviders h n pre w = (Ok (a, False), w') \<Longrightarrow>
   scanProviders h n (pre @ rest) w = scanProviders h n rest w'"
proof (induction pre arbitrary: w)
  case Nil
  then show ?case by simp
next
  case (Cons p pre)
  then show ?case
    by (auto split: prod.splits sum.splits option.splits if_splits)
qed

lemma scanProviders_no_create:
  "scanProviders h n ps w = (r, w') \<Longrightarrow>
   filter is_create_call (calls w') = filter is_create_call (calls w)"
proof (induction ps arbitrary: w)
  case Nil
  then show ?case by simp
next
  case (Cons p ps)
  then show ?case
    by (auto split: prod.splits sum.splits option.splits if_splits dest!: invoke_calls)
qed

lemma tagProvider_calls:
  "tagProvider h arn c w = (r, w') \<Longrightarrow> calls w' = calls w @ [Call_TagOpenIDConnectProvider (tagProviderInput arn c)]"
  by (auto simp: tagProvider_def split: prod.splits sum.splits dest!: invoke_calls)

lemma createProvider_calls:
  "calls (snd (createProvider h req w)) =
     calls w @ [Call_CreateOpenIDConnectProvider (createProviderInput req)]"
  by (auto simp: createProvider_def split: prod.splits sum.splits option.splits dest!: invoke_calls)

text \<open>
  Claim C3, as amended. A valid request is given, the listing of the providers succeeds,
  and a listed provider \<open>p\<close> has a stored URL that differs from the request's issuer URL by
  one trailing slash: the issuer URL is the stored URL with a slash appended, or the stored
  URL is the issuer URL with a slash appended and the issuer URL does not itself end with a
  slash. If no provider listed before \<open>p\<close> matches, the detail of \<open>p\<close> is fetched,
  \<open>p\<close> carries its ARN and tagging succeeds, then \<^verbatim>\<open>Handle\<close> returns status
  \<^verbatim>\<open>already_exists\<close> with the ARN of \<open>p\<close>, and the run adds no call of
  \<^verbatim>\<open>CreateOpenIDConnectProvider\<close>.

  Without the condition on the issuer URL the statement fails (the counterexample below):
  \<^verbatim>\<open>checkProviderExists\<close> strips one slash from a stored URL, while the issuer URL has
  been stripped twice by then.
\<close>

theorem Handle_finds_provider_modulo_trailing_slash:
  assumes valid: "validateRequest parse req = None"
    and listed: "invoke (ListOpenIDConnectProviders h) Call_ListOpenIDConnectProviders w = (Inr out, w1)"
    and position: "OpenIDConnectProviderList out = pre @ p # post"
    and earlier: "scanProviders h (strings_TrimSuffix (strings_TrimSuffix (IssuerURL req) ''/'') ''/'') pre w1
                    = (Ok ('''', False), w2)"
    and detail: "invoke (GetOpenIDConnectProvider h \<lparr>get_OpenIDConnectProviderArn = Arn p\<rparr>)
                   (Call_GetOpenIDConnectProvider \<lparr>get_OpenIDConnectProviderArn = Arn p\<rparr>) w2
                    = (Inr \<lparr>get_Url = Some stored\<rparr>, w3)"
    and arn: "Arn p = Some arn"
    and differ: "IssuerURL req = stored @ ''/'' \<or>
                 (stored = IssuerURL req @ ''/'' \<and> \<not> strings_HasSuffix (IssuerURL req) ''/'')"
    and tagged: "tagProvider h arn (ClusterID req) w3 = (None, w4)"
  shows "Handle parse h req w =
           (Ok \<lparr>OIDCProviderARN = arn, Status = ''already_exists'',
                Message = ''OIDC provider already exists''\<rparr>, w4)
         \<and> filter is_create_call (calls w4) = filter is_create_call (calls w)"
proof -
  let ?n = "strings_TrimSuffix (strings_TrimSuffix (IssuerURL req) ''/'') ''/''"
  have same: "strings_TrimSuffix stored ''/'' = ?n"
    using differ
  proof
    assume "IssuerURL req = stored @ ''/''"
    then show ?thesis by (simp add: strings_TrimSuffix_append)
  next
    assume "stored = IssuerURL req @ ''/'' \<and> \<not> strings_HasSuffix (IssuerURL req) ''/''"
    then show ?thesis by (simp add: strings_TrimSuffix_append TrimSuffix_id)
  qed
  have hit: "scanProviders h ?n (p # post) w2 = (Ok (arn, True), w3)"
    using detail arn same by simp
  have scan: "scanProviders h ?n (pre @ p # post) w1 = (Ok (arn, True), w3)"
    using scanProviders_append [OF earlier] hit by simp
  have chk: "checkProviderExists h (strings_TrimSuffix (IssuerURL req) ''/'') w = (Ok (arn, True), w3)"
    using listed position scan by (simp add: checkProviderExists_def)
  have result: "Handle parse h req w =
           (Ok \<lparr>OIDCProviderARN = arn, Status = ''already_exists'',
                Message = ''OIDC provider already exists''\<rparr>, w4)"
    using valid chk tagged by (simp add: Handle_def statusAlreadyExists_def)
  have c1: "calls w1 = calls w @ [Call_ListOpenIDConnectProviders]"
    using listed by (rule invoke_calls)
  have c2: "filter is_create_call (calls w2) = filter is_create_call (calls w1)"
    using earlier by (rule scanProviders_no_create)
  have c3: "calls w3 = calls w2 @ [Call_GetOpenIDConnectProvider \<lparr>get_OpenIDConnectProviderArn = Arn p\<rparr>]"
    using detail by (rule invoke_calls)
  have c4: "calls w4 = calls w3 @ [Call_TagOpenIDConnectProvider (tagProviderInput arn (ClusterID req))]"
    using tagged by (rule tagProvider_calls)
  show ?thesis using result c1 c2 c3 c4 by simp
qed

text \<open>The hypotheses hold for the request with issuer URL \<^verbatim>\<open>https://example.com/\<close> and a
  provider stored as \<^verbatim>\<open>https://example.com\<close>; the other direction is evaluated next to
  it.\<close>

theorem Handle_finds_provider_witness:
  "Handle url_Parse_sample (sample_handler False) sample_request (initial_world [(''arn:p1'', ''https://example.com'')]) =
     (Ok \<lparr>OIDCProviderARN = ''arn:p1'', Status = ''already_exists'',
          Message = ''OIDC provider already exists''\<rparr>,
      \<lparr>remote = [(''arn:p1'', ''https://example.com'')],
       calls = [Call_ListOpenIDConnectProviders,
                Call_GetOpenIDConnectProvider \<lparr>get_OpenIDConnectProviderArn = Some ''arn:p1''\<rparr>,
                Call_TagOpenIDConnectProvider
                  \<lparr>tag_OpenIDConnectProviderArn = ''arn:p1'',
                   tag_Tags = [(''rosa:component'', ''oidc-provider''), (''rosa:cluster-id'', ''c'')]\<rparr>],
       stdout = []\<rparr>)
   \<and> fst (Handle url_Parse_sample (sample_handler False) (sample_request\<lparr>IssuerURL := ''https://example.com''\<rparr>)
          (initial_world [(''arn:p1'', ''https://example.com/'')])) =
       Ok \<lparr>OIDCProviderARN = ''arn:p1'', Status = ''already_exists'',
          Message = ''OIDC provider already exists''\<rparr>"
proof -
  let ?h = "sample_handler False"
  let ?s = "[(''arn:p1'', ''https://example.com'')]"
  let ?w = "initial_world ?s :: ((string \<times> string) list, iam_call) world"
  let ?w1 = "\<lparr>remote = ?s, calls = [Call_ListOpenIDConnectProviders], stdout = []\<rparr>"
  let ?g = "\<lparr>get_OpenIDConnectProviderArn = Some ''arn:p1''\<rparr>"
  let ?w3 = "\<lparr>remote = ?s, calls = [Call_ListOpenIDConnectProviders, Call_GetOpenIDConnectProvider ?g],
              stdout = []\<rparr>"
  let ?w4 = "\<lparr>remote = ?s,
       calls = [Call_ListOpenIDConnectProviders,
                Call_GetOpenIDConnectProvider ?g,
                Call_TagOpenIDConnectProvider
                  \<lparr>tag_OpenIDConnectProviderArn = ''arn:p1'',
                   tag_Tags = [(''rosa:component'', ''oidc-provider''), (''rosa:cluster-id'', ''c'')]\<rparr>],
       stdout = []\<rparr>"
  have valid: "validateRequest url_Parse_sample sample_request = None"
    by (simp add: handler_eval)
  have listed: "invoke (ListOpenIDConnectProviders ?h) Call_ListOpenIDConnectProviders ?w =
      (Inr \<lparr>OpenIDConnectProviderList = [\<lparr>Arn = Some ''arn:p1''\<rparr>]\<rparr>, ?w1)"
    by (simp add: handler_eval)
  have position: "OpenIDConnectProviderList \<lparr>OpenIDConnectProviderList = [\<lparr>Arn = Some ''arn:p1''\<rparr>]\<rparr>
      = [] @ \<lparr>Arn = Some ''arn:p1''\<rparr> # []"
    by simp
  have earlier: "scanProviders ?h (strings_TrimSuffix (strings_TrimSuffix (IssuerURL sample_request) ''/'') ''/'') [] ?w1
      = (Ok ('''', False), ?w1)"
    by simp
  have detail: "invoke (GetOpenIDConnectProvider ?h \<lparr>get_OpenIDConnectProviderArn = Arn \<lparr>Arn = Some ''arn:p1''\<rparr>\<rparr>)
                   (Call_GetOpenIDConnectProvider \<lparr>get_OpenIDConnectProviderArn = Arn \<lparr>Arn = Some ''arn:p1''\<rparr>\<rparr>) ?w1
                    = (Inr \<lparr>get_Url = Some ''https://example.com''\<rparr>, ?w3)"
    by (simp add: handler_eval)
  have arn: "Arn \<lparr>Arn = Some ''arn:p1''\<rparr> = Some ''arn:p1''"
    by simp
  have differ: "IssuerURL sample_request = ''https://example.com'' @ ''/'' \<or>
                 (''https://example.com'' = IssuerURL sample_request @ ''/'' \<and> \<not> strings_HasSuffix (IssuerURL sample_request) ''/'')"
    by (simp add: sample_request_def)
  have tagged: "tagProvider ?h ''arn:p1'' (ClusterID sample_request) ?w3 = (None, ?w4)"
    by (simp add: handler_eval)
  have other: "fst (Handle url_Parse_sample (sample_handler False) (sample_request\<lparr>IssuerURL := ''https://example.com''\<rparr>)
          (initial_world [(''arn:p1'', ''https://example.com/'')])) =
       Ok \<lparr>OIDCProviderARN = ''arn:p1'', Status = ''already_exists'',
          Message = ''OIDC provider already exists''\<rparr>"
    by (simp add: handler_eval)
  from Handle_finds_provider_modulo_trailing_slash [OF valid listed position earlier detail arn differ tagged]
  show ?thesis using other by simp
qed

text \<open>Claim C3 as stated fails: the stored URL \<^verbatim>\<open>https://example.com//\<close> is the issuer URL
  \<^verbatim>\<open>https://example.com/\<close> of a valid request plus one slash, every call succeeds, and
  \<^verbatim>\<open>Handle\<close> creates a second provider.\<close>

theorem Handle_finds_provider_counterexample:
  "validateRequest url_Parse_sample sample_request = None
   \<and> ''https://example.com//'' = IssuerURL sample_request @ ''/''
   \<and> Handle url_Parse_sample (sample_handler False) sample_request (initial_world [(''arn:p1'', ''https://example.com//'')]) =
     (Ok \<lparr>OIDCProviderARN = ''arn:https://example.com'', Status = ''created'',
          Message = ''OIDC provider created successfully''\<rparr>,
      \<lparr>remote = [(''arn:p1'', ''https://example.com//''),
                 (''arn:https://example.com'', ''https://example.com'')],
       calls = [Call_ListOpenIDConnectProviders,
                Call_GetOpenIDConnectProvider \<lparr>get_OpenIDConnectProviderArn = Some ''arn:p1''\<rparr>,
                Call_CreateOpenIDConnectProvider
                  \<lparr>create_Url = ''https://example.com'', create_ThumbprintList = [''t''],
                   create_ClientIDList = [''openshift'', ''sts.amazonaws.com'']\<rparr>,
                Call_TagOpenIDConnectProvider
                  \<lparr>tag_OpenIDConnectProviderArn = ''arn:https://example.com'',
                   tag_Tags = [(''rosa:component'', ''oidc-provider''), (''rosa:cluster-id'', ''c'')]\<rparr>],
       stdout = []\<rparr>)"
  by (simp add: handler_eval)

text \<open>
  Claim C5. For a valid request whose existence check returns: if the provider exists, an
  error of the tagging call makes \<^verbatim>\<open>Handle\<close> return that error, wrapped, and no response;
  if it does not exist and the creation succeeds, an error of the tagging call is printed
  as a warning and \<^verbatim>\<open>Handle\<close> returns status \<^verbatim>\<open>created\<close> with the new provider's
  ARN.
\<close>

theorem Handle_tagging_failure:
  assumes valid: "validateRequest parse req = None"
    and checked: "checkProviderExists h (strings_TrimSuffix (IssuerURL req) ''/'') w = (Ok (arn, ex), w1)"
  shows "(ex \<longrightarrow> (\<forall>err w2. tagProvider h arn (ClusterID req) w1 = (Some err, w2) \<longrightarrow>
             Handle parse h req w = (Err (Wrapped ''failed to tag existing provider'' err), w2)))
       \<and> (\<not> ex \<longrightarrow> (\<forall>newARN w2 err w3.
             createProvider h req w1 = (Ok newARN, w2) \<longrightarrow>
             tagProvider h newARN (ClusterID req) w2 = (Some err, w3) \<longrightarrow>
             Handle parse h req w =
               (Ok \<lparr>OIDCProviderARN = newARN, Status = ''created'',
                    Message = ''OIDC provider created successfully''\<rparr>,
                Printf ''Warning: failed to tag provider: %v\<newline>'' err w3)))"
  using valid checked by (simp add: Handle_def statusCreated_def)

text \<open>Both cases, at a client whose tagging call fails.\<close>

theorem Handle_tagging_failure_witness:
  "Handle url_Parse_sample (sample_handler True) sample_request (initial_world [(''arn:p1'', ''https://example.com'')]) =
     (Err (Wrapped ''failed to tag existing provider'' (ErrorString ''AccessDenied'')),
      \<lparr>remote = [(''arn:p1'', ''https://example.com'')],
       calls = [Call_ListOpenIDConnectProviders,
                Call_GetOpenIDConnectProvider \<lparr>get_OpenIDConnectProviderArn = Some ''arn:p1''\<rparr>,
                Call_TagOpenIDConnectProvider
                  \<lparr>tag_OpenIDConnectProviderArn = ''arn:p1'',
                   tag_Tags = [(''rosa:component'', ''oidc-provider''), (''rosa:cluster-id'', ''c'')]\<rparr>],
       stdout = []\<rparr>)
   \<and> Handle url_Parse_sample (sample_handler True) sample_request (initial_world []) =
     (Ok \<lparr>OIDCProviderARN = ''arn:https://example.com'', Status = ''created'',
          Message = ''OIDC provider created successfully''\<rparr>,
      \<lparr>remote = [(''arn:https://example.com'', ''https://example.com'')],
       calls = [Call_ListOpenIDConnectProviders,
                Call_CreateOpenIDConnectProvider
                  \<lparr>create_Url = ''https://example.com'', create_ThumbprintList = [''t''],
                   create_ClientIDList = [''openshift'', ''sts.amazonaws.com'']\<rparr>,
                Call_TagOpenIDConnectProvider
                  \<lparr>tag_OpenIDConnectProviderArn = ''arn:https://example.com'',
                   tag_Tags = [(''rosa:component'', ''oidc-provider''), (''rosa:cluster-id'', ''c'')]\<rparr>],
       stdout = [(''Warning: failed to tag provider: %v\<newline>'', ErrorString ''AccessDenied'')]\<rparr>)"
proof -
  let ?h = "sample_handler True"
  let ?s = "[(''arn:p1'', ''https://example.com'')]"
  let ?g = "\<lparr>get_OpenIDConnectProviderArn = Some ''arn:p1''\<rparr>"
  let ?t = "\<lparr>tag_OpenIDConnectProviderArn = ''arn:p1'',
             tag_Tags = [(''rosa:component'', ''oidc-provider''), (''rosa:cluster-id'', ''c'')]\<rparr>"
  let ?w1 = "\<lparr>remote = ?s, calls = [Call_ListOpenIDConnectProviders, Call_GetOpenIDConnectProvider ?g],
              stdout = []\<rparr>"
  let ?w2 = "\<lparr>remote = ?s, calls = [Call_ListOpenIDConnectProviders, Call_GetOpenIDConnectProvider ?g,
              Call_TagOpenIDConnectProvider ?t], stdout = []\<rparr>"
  have valid: "validateRequest url_Parse_sample sample_request = None"
    by (simp add: handler_eval)
  have checked: "checkProviderExists ?h (strings_TrimSuffix (IssuerURL sample_request) ''/'') (initial_world ?s)
      = (Ok (''arn:p1'', True), ?w1)"
    by (simp add: handler_eval)
  have tag_fails: "tagProvider ?h ''arn:p1'' (ClusterID sample_request) ?w1 = (Some (ErrorString ''AccessDenied''), ?w2)"
    by (simp add: handler_eval)
  let ?c = "\<lparr>create_Url = ''https://example.com'', create_ThumbprintList = [''t''],
             create_ClientIDList = [''openshift'', ''sts.amazonaws.com'']\<rparr>"
  let ?t' = "\<lparr>tag_OpenIDConnectProviderArn = ''arn:https://example.com'',
             tag_Tags = [(''rosa:component'', ''oidc-provider''), (''rosa:cluster-id'', ''c'')]\<rparr>"
  let ?s' = "[(''arn:https://example.com'', ''https://example.com'')]"
  let ?v1 = "\<lparr>remote = [], calls = [Call_ListOpenIDConnectProviders], stdout = []\<rparr>
              :: ((string \<times> string) list, iam_call) world"
  let ?v2 = "\<lparr>remote = ?s', calls = [Call_ListOpenIDConnectProviders, Call_CreateOpenIDConnectProvider ?c],
              stdout = []\<rparr>"
  let ?v3 = "\<lparr>remote = ?s', calls = [Call_ListOpenIDConnectProviders, Call_CreateOpenIDConnectProvider ?c,
              Call_TagOpenIDConnectProvider ?t'], stdout = []\<rparr>"
  have checked': "checkProviderExists ?h (strings_TrimSuffix (IssuerURL sample_request) ''/'') (initial_world [])
      = (Ok ('''', False), ?v1)"
    by (simp add: handler_eval)
  have created: "createProvider ?h sample_request ?v1 = (Ok ''arn:https://example.com'', ?v2)"
    by (simp add: handler_eval)
  have tag_fails': "tagProvider ?h ''arn:https://example.com'' (ClusterID sample_request) ?v2
      = (Some (ErrorString ''AccessDenied''), ?v3)"
    by (simp add: handler_eval)
  show ?thesis
    using Handle_tagging_failure [OF valid checked] tag_fails
          Handle_tagging_failure [OF valid checked'] created tag_fails'
    by (simp add: Printf_def)
qed

text \<open>
  Claim C6, as amended. \<^verbatim>\<open>validateRequest\<close> returns the error of the first violated rule
  in the order: issuer URL given, issuer URL parses, its scheme is \<^verbatim>\<open>https\<close>, its host is
  not empty, thumbprint given, cluster identifier given; it returns no error when no rule
  is violated. (\<open>List.find\<close> returns the first element of a list that satisfies the
  predicate.)
\<close>

theorem validateRequest_first_violated_rule:
  "validateRequest parse req =
     map_option (rule_error parse req) (List.find (violated parse req) rules_in_order)"
  by (simp add: validateRequest_def rules_in_order_def split: sum.splits)

text \<open>
  Claim C6 as stated lists five rules, with "non-absolute issuer URL" before
  "non-secure-scheme issuer URL" and no rule for the host. Reading "absolute" as
  \<^verbatim>\<open>net/url\<close> does, the request with issuer URL \<^verbatim>\<open>https://\<close> violates none of the five
  rules, and the code rejects it for its empty host. Reading "absolute" as "names a host",
  the issuer URL \<^verbatim>\<open>http://\<close> violates the rule on absolute URLs first, and the code
  rejects it for its scheme.
\<close>

theorem validateRequest_claimed_rules_counterexample:
  "List.find (claimed_violated IsAbs url_Parse_sample (sample_request\<lparr>IssuerURL := ''https://''\<rparr>))
      claimed_rules_in_order = None
   \<and> validateRequest url_Parse_sample (sample_request\<lparr>IssuerURL := ''https://''\<rparr>)
       = Some (ErrorString ''issuer_url must have a valid host'')
   \<and> List.find (claimed_violated names_host url_Parse_sample (sample_request\<lparr>IssuerURL := ''http://''\<rparr>))
      claimed_rules_in_order = Some Non_absolute_issuer_URL
   \<and> validateRequest url_Parse_sample (sample_request\<lparr>IssuerURL := ''http://''\<rparr>)
       = Some (ErrorString ''issuer_url must use https scheme'')"
  by (simp add: validateRequest_def claimed_rules_in_order_def url_Parse_sample_def sample_request_def
        IsAbs_def names_host_def)


section \<open>Theorems about the policy generator\<close>

text \<open>
  Claim C7. \<^verbatim>\<open>GenerateLambdaResourcePolicy\<close> returns a validation error when either
  argument is empty. For non-empty arguments it marshals a document with one statement,
  whose effect is \<^verbatim>\<open>Allow\<close> and whose condition \<^verbatim>\<open>StringEquals\<close> maps
  \<^verbatim>\<open>aws:SourceAccount\<close> to the source account given, and returns what \<^verbatim>\<open>json.Marshal\<close>
  returns: the JSON text whenever marshalling succeeds (as it does for a document of strings
  and string maps).
\<close>

theorem GenerateLambdaResourcePolicy_validates_arguments:
  "GenerateLambdaResourcePolicy marshal '''' x
     = Inl (ErrorString ''CLM service role ARN is required'')
   \<and> GenerateLambdaResourcePolicy marshal x ''''
     = Inl (ErrorString (if x = '''' then ''CLM service role ARN is required''
                         else ''source account ID is required''))
   \<and> (clmServiceRoleARN \<noteq> '''' \<and> sourceAccountID \<noteq> '''' \<longrightarrow>
        map Effect (Statement (LambdaResourcePolicy clmServiceRoleARN sourceAccountID)) = [''Allow'']
      \<and> map Condition (Statement (LambdaResourcePolicy clmServiceRoleARN sourceAccountID))
          = [Mapping.of_alist [(''StringEquals'', StringMap (Mapping.of_alist [(''aws:SourceAccount'', sourceAccountID)]))]]
      \<and> GenerateLambdaResourcePolicy marshal clmServiceRoleARN sourceAccountID
          = (case marshal (LambdaResourcePolicy clmServiceRoleARN sourceAccountID) of
               Inl err \<Rightarrow> Inl (Wrapped ''failed to marshal resource policy'' err)
             | Inr policyJSON \<Rightarrow> Inr policyJSON)
      \<and> (\<forall>policyJSON. marshal (LambdaResourcePolicy clmServiceRoleARN sourceAccountID) = Inr policyJSON
            \<longrightarrow> GenerateLambdaResourcePolicy marshal clmServiceRoleARN sourceAccountID
                  = Inr policyJSON))"
  by (simp add: GenerateLambdaResourcePolicy_def LambdaResourcePolicy_def)

text \<open>With a marshaller that succeeds.\<close>

theorem GenerateLambdaResourcePolicy_witness:
  "GenerateLambdaResourcePolicy (json_Marshal sample_platform) ''arn:clm'' ''123'' = Inr ''2012-10-17''
   \<and> map Condition (Statement (LambdaResourcePolicy ''arn:clm'' ''123''))
       = [Mapping.of_alist [(''StringEquals'', StringMap (Mapping.of_alist [(''aws:SourceAccount'', ''123'')]))]]
   \<and> GenerateLambdaResourcePolicy (json_Marshal sample_platform) '''' ''123''
       = Inl (ErrorString ''CLM service role ARN is required'')
   \<and> GenerateLambdaResourcePolicy (json_Marshal sample_platform) ''arn:clm'' ''''
       = Inl (ErrorString ''source account ID is required'')"
proof -
  have nonempty: "''arn:clm'' \<noteq> '''' \<and> ''123'' \<noteq> ''''"
    by simp
  have marshalled: "json_Marshal sample_platform (LambdaResourcePolicy ''arn:clm'' ''123'') = Inr ''2012-10-17''"
    by (simp add: sample_platform_def LambdaResourcePolicy_def)
  show ?thesis
    using GenerateLambdaResourcePolicy_validates_arguments
            [of "json_Marshal sample_platform" "''123''" "''arn:clm''" "''123''"]
          GenerateLambdaResourcePolicy_validates_arguments
            [of "json_Marshal sample_platform" "''arn:clm''" "''arn:clm''" "''123''"]
          nonempty marshalled
    by simp
qed

section \<open>Theorems about the package builder\<close>

lemma createZipPackage_entry:
  assumes "createZipPackage pf binaryPath s = (Inr zipData, s')"
  shows "\<exists>header written.
           zip_Close pf [(header, written)] = Inr zipData
         \<and> zip_CreateHeader pf header = None
         \<and> Name header = ''bootstrap''
         \<and> Method header = zip_Deflate
         \<and> Mode header = mode_0755"
  using assms
  by (auto simp: createZipPackage_def SetMode_def
           split: prod.splits sum.splits option.splits)

lemma Build_Inr:
  assumes "Build pf sourceDir s = (Inr (zipData, hashStr), s')"
  shows "\<exists>tmpDir s2 s3.
           createZipPackage pf (filepath_Join pf tmpDir ''bootstrap'') s2 = (Inr zipData, s3)
         \<and> length zipData \<le> maxPackageSize
         \<and> hashStr = Sprintf_x (sha256_Sum256 pf zipData)"
  using assms
  by (auto simp: Build_def split: prod.splits sum.splits option.splits if_splits)

lemma mode_0755_executable: "mode_0755 AND 73 = (73 :: 32 word)"
  by (simp add: mode_0755_def)

lemma on_remote_Build_checksum:
  assumes "on_remote (Build pf sourceDir) w = (Inr (zipData, checksum), w')"
  shows "checksum = Sprintf_x (sha256_Sum256 pf zipData)"
proof -
  obtain r s' where b: "Build pf sourceDir (remote w) = (r, s')"
    by (cases "Build pf sourceDir (remote w)")
  with assms have "r = Inr (zipData, checksum)"
    by (simp add: on_remote_def)
  with b have "Build pf sourceDir (remote w) = (Inr (zipData, checksum), s')"
    by simp
  from Build_Inr [OF this] show ?thesis
    by auto
qed

text \<open>
  Claim C8. When \<^verbatim>\<open>Build\<close> succeeds, the bytes it returns are the archive that the archive
  writer closed with exactly one entry, whose header has the name \<^verbatim>\<open>bootstrap\<close>, the
  method Deflate and the file mode \<^verbatim>\<open>0755\<close>; that mode has the three execute bits
  (\<^verbatim>\<open>0111\<close>, that is 73) set.
\<close>

theorem Build_archive_has_single_bootstrap_entry:
  assumes "Build pf sourceDir s = (Inr (zipData, hashStr), s')"
  shows "\<exists>header written.
           zip_Close pf [(header, written)] = Inr zipData
         \<and> zip_CreateHeader pf header = None
         \<and> Name header = ''bootstrap''
         \<and> Method header = zip_Deflate
         \<and> Mode header = mode_0755
         \<and> Mode header AND 73 = 73"
proof -
  from Build_Inr [OF assms] obtain tmpDir s2 s3 where
    "createZipPackage pf (filepath_Join pf tmpDir ''bootstrap'') s2 = (Inr zipData, s3)"
    by blast
  from createZipPackage_entry [OF this] show ?thesis
    by (auto simp: mode_0755_executable)
qed

text \<open>A successful build on the sample platform.\<close>

theorem Build_witness:
  "Build sample_platform ''./src'' sample_account = (Inr ([1, 2, 3], ''03''), sample_account)
   \<and> (\<exists>header written.
           zip_Close sample_platform [(header, written)] = Inr [1, 2, 3]
         \<and> zip_CreateHeader sample_platform header = None
         \<and> Name header = ''bootstrap''
         \<and> Method header = zip_Deflate
         \<and> Mode header = mode_0755
         \<and> Mode header AND 73 = 73)"
proof -
  have built: "Build sample_platform ''./src'' sample_account = (Inr ([1, 2, 3], ''03''), sample_account)"
    by (simp add: deployer_eval)
  from Build_archive_has_single_bootstrap_entry [OF built] built
  show ?thesis by simp
qed

section \<open>Theorems about the deployment orchestrator\<close>

lemma logGroupListed_None:
  "logGroupListed n gs = None \<Longrightarrow> \<exists>lg \<in> set gs. LogGroupName lg = None"
  by (induction gs) (auto split: option.splits if_splits)

lemma ensureLogGroup_no_panic:
  assumes "log_groups_named (cwLogsClient d)"
  shows "fst (ensureLogGroup d n w) \<noteq> Panic"
proof -
  obtain r s' where run:
    "DescribeLogGroups (cwLogsClient d) \<lparr>describe_LogGroupNamePrefix = n\<rparr> (remote w) = (r, s')"
    by (cases "DescribeLogGroups (cwLogsClient d) \<lparr>describe_LogGroupNamePrefix = n\<rparr> (remote w)")
  have listed: "\<And>out. r = Inr out \<Longrightarrow> logGroupListed n (LogGroups out) \<noteq> None"
    using assms run logGroupListed_None unfolding log_groups_named_def by blast
  show ?thesis
    using run listed
    by (auto simp: ensureLogGroup_def invoke_def
             split: prod.splits sum.splits option.splits bool.splits if_splits)
qed

lemma Deploy_auxiliary_steps_result:
  assumes "log_groups_named (cwLogsClient d)"
  shows "fst (Deploy_auxiliary_steps pf d functionARN status roleARN zipData checksum w) =
           Ok \<lparr>res_FunctionARN = functionARN,
               res_FunctionName = FunctionName (config d),
               res_ExecutionRole = roleARN,
               res_LogGroupName = ''/aws/lambda/'' @ FunctionName (config d),
               res_Status = status,
               res_PackageSize = length zipData,
               res_PackageChecksum = checksum\<rparr>"
proof -
  let ?w1 = "if CLMServiceRoleARN (config d) \<noteq> [] \<and> SourceAccountID (config d) \<noteq> [] then
               (case addResourcePolicy pf d w of
                  (Some err, w') \<Rightarrow>
                    Printf ''Warning: failed to add resource policy: %v\<newline>'' err w'
                | (None, w') \<Rightarrow> w')
             else w"
  obtain logged w2 where
    lg: "ensureLogGroup d (''/aws/lambda/'' @ FunctionName (config d)) ?w1 = (logged, w2)"
    by (cases "ensureLogGroup d (''/aws/lambda/'' @ FunctionName (config d)) ?w1")
  have "logged \<noteq> Panic"
    using ensureLogGroup_no_panic [OF assms, of "''/aws/lambda/'' @ FunctionName (config d)" ?w1] lg
    by simp
  then show ?thesis
    using lg by (cases logged) (simp_all add: Deploy_auxiliary_steps_def Let_def)
qed

lemma Deploy_auxiliary_steps_no_error:
  "fst (Deploy_auxiliary_steps pf d functionARN status roleARN zipData checksum w) \<noteq> Err e"
  by (auto simp: Deploy_auxiliary_steps_def Let_def split: prod.splits outcome.splits)

lemma log_groups_named_sample: "log_groups_named sample_logs"
  by (auto simp: log_groups_named_def sample_logs_def failing_def split: if_splits)

lemma log_groups_named_sample_deployer: "log_groups_named (cwLogsClient sample_deployer)"
  using log_groups_named_sample by (simp add: sample_deployer_def)

lemma addResourcePolicy_extends:
  "\<exists>later. calls (snd (addResourcePolicy pf d w)) = calls w @ later"
  by (auto simp: addResourcePolicy_def split: prod.splits sum.splits dest!: invoke_calls)

lemma tagFunction_extends:
  "\<exists>later. calls (snd (tagFunction d functionARN w)) = calls w @ later"
  by (auto simp: tagFunction_def split: prod.splits sum.splits dest!: invoke_calls)

lemma ensureLogGroup_extends:
  "\<exists>later. calls (snd (ensureLogGroup d n w)) = calls w @ later"
proof -
  obtain r1 w1 where s1:
    "invoke (DescribeLogGroups (cwLogsClient d) \<lparr>describe_LogGroupNamePrefix = n\<rparr>)
       (Call_DescribeLogGroups \<lparr>describe_LogGroupNamePrefix = n\<rparr>) w = (r1, w1)"
    by (cases "invoke (DescribeLogGroups (cwLogsClient d) \<lparr>describe_LogGroupNamePrefix = n\<rparr>)
       (Call_DescribeLogGroups \<lparr>describe_LogGroupNamePrefix = n\<rparr>) w")
  obtain r2 w2 where s2:
    "invoke (CreateLogGroup (cwLogsClient d) \<lparr>createlg_LogGroupName = n\<rparr>)
       (Call_CreateLogGroup \<lparr>createlg_LogGroupName = n\<rparr>) w1 = (r2, w2)"
    by (cases "invoke (CreateLogGroup (cwLogsClient d) \<lparr>createlg_LogGroupName = n\<rparr>)
       (Call_CreateLogGroup \<lparr>createlg_LogGroupName = n\<rparr>) w1")
  obtain r3 w3 where s3:
    "invoke (PutRetentionPolicy (cwLogsClient d)
               \<lparr>retention_LogGroupName = n, retention_RetentionInDays = 90\<rparr>)
       (Call_PutRetentionPolicy \<lparr>retention_LogGroupName = n, retention_RetentionInDays = 90\<rparr>) w2
       = (r3, w3)"
    by (cases "invoke (PutRetentionPolicy (cwLogsClient d)
               \<lparr>retention_LogGroupName = n, retention_RetentionInDays = 90\<rparr>)
       (Call_PutRetentionPolicy \<lparr>retention_LogGroupName = n, retention_RetentionInDays = 90\<rparr>) w2")
  obtain r4 w4 where s4:
    "invoke (TagLogGroup (cwLogsClient d) \<lparr>taglg_LogGroupName = n, taglg_Tags = Tags (config d)\<rparr>)
       (Call_TagLogGroup \<lparr>taglg_LogGroupName = n, taglg_Tags = Tags (config d)\<rparr>) w3 = (r4, w4)"
    by (cases "invoke (TagLogGroup (cwLogsClient d) \<lparr>taglg_LogGroupName = n, taglg_Tags = Tags (config d)\<rparr>)
       (Call_TagLogGroup \<lparr>taglg_LogGroupName = n, taglg_Tags = Tags (config d)\<rparr>) w3")
  have e1: "\<exists>later. calls w1 = calls w @ later"
    using invoke_calls [OF s1] by simp
  have e2: "\<exists>later. calls w2 = calls w @ later"
    using invoke_calls [OF s1] invoke_calls [OF s2] by simp
  have e3: "\<exists>later. calls w3 = calls w @ later"
    using invoke_calls [OF s1] invoke_calls [OF s2] invoke_calls [OF s3] by simp
  have e4: "\<exists>later. calls w4 = calls w @ later"
    using invoke_calls [OF s1] invoke_calls [OF s2] invoke_calls [OF s3] invoke_calls [OF s4]
    by simp
  have "calls (snd (ensureLogGroup d n w)) = calls w1
      \<or> calls (snd (ensureLogGroup d n w)) = calls w2
      \<or> calls (snd (ensureLogGroup d n w)) = calls w3
      \<or> calls (snd (ensureLogGroup d n w)) = calls w4"
    by (cases r1; cases r2; cases r3; cases r4)
       (simp_all add: ensureLogGroup_def s1 s2 s3 s4 Printf_calls
          split: option.splits bool.splits)
  then show ?thesis
    using e1 e2 e3 e4 by (elim disjE) simp_all
qed

lemma Deploy_auxiliary_steps_extends:
  "\<exists>later. calls (snd (Deploy_auxiliary_steps pf d functionARN status roleARN zipData checksum w))
     = calls w @ later"
proof -
  let ?w1 = "if CLMServiceRoleARN (config d) \<noteq> [] \<and> SourceAccountID (config d) \<noteq> [] then
               (case addResourcePolicy pf d w of
                  (Some err, w') \<Rightarrow>
                    Printf ''Warning: failed to add resource policy: %v\<newline>'' err w'
                | (None, w') \<Rightarrow> w')
             else w"
  obtain r0 w0 where p: "addResourcePolicy pf d w = (r0, w0)"
    by (cases "addResourcePolicy pf d w")
  from addResourcePolicy_extends [of pf d w] p obtain a0 where a0: "calls w0 = calls w @ a0"
    by auto
  have "calls ?w1 = calls w \<or> calls ?w1 = calls w0"
    using p by (cases r0) (simp_all add: Printf_calls)
  with a0 obtain a where a: "calls ?w1 = calls w @ a"
    by auto
  obtain logged w2 where
    lg: "ensureLogGroup d (''/aws/lambda/'' @ FunctionName (config d)) ?w1 = (logged, w2)"
    by (cases "ensureLogGroup d (''/aws/lambda/'' @ FunctionName (config d)) ?w1")
  obtain b where b: "calls w2 = calls ?w1 @ b"
    using ensureLogGroup_extends [of d "''/aws/lambda/'' @ FunctionName (config d)" ?w1] lg
    by auto
  let ?w3 = "case logged of
               Err err \<Rightarrow> Printf ''Warning: failed to ensure log group: %v\<newline>'' err w2
             | _ \<Rightarrow> w2"
  have w3: "calls ?w3 = calls w2"
    by (simp add: Printf_calls split: outcome.splits)
  let ?w4 = "if \<not> Mapping.is_empty (Tags (config d)) then
               (case tagFunction d functionARN ?w3 of
                  (Some err, w') \<Rightarrow>
                    Printf ''Warning: failed to tag function: %v\<newline>'' err w'
                | (None, w') \<Rightarrow> w')
             else ?w3"
  obtain r5 w5 where t: "tagFunction d functionARN ?w3 = (r5, w5)"
    by (cases "tagFunction d functionARN ?w3")
  from tagFunction_extends [of d functionARN ?w3] t obtain c0 where c0: "calls w5 = calls ?w3 @ c0"
    by auto
  have "calls ?w4 = calls ?w3 \<or> calls ?w4 = calls w5"
    using t by (cases r5) (simp_all add: Printf_calls)
  with c0 obtain c where c: "calls ?w4 = calls ?w3 @ c"
    by auto
  have final: "calls (snd (Deploy_auxiliary_steps pf d functionARN status roleARN zipData checksum w))
      = (if logged = Panic then calls w2 else calls ?w4)"
    using lg by (cases logged) (simp_all add: Deploy_auxiliary_steps_def Let_def)
  show ?thesis
  proof (cases "logged = Panic")
    case True
    with final a b show ?thesis by simp
  next
    case False
    with final a b c w3 show ?thesis by simp
  qed
qed

lemma Deploy_created:
  assumes "ensureExecutionRole pf d w = (Ok roleARN, w1)"
    and "on_remote (Build pf (SourceDir (config d))) w1 = (Inr (zipData, checksum), w2)"
    and "checkFunctionExists d w2 = (Inr (False, existingFunc), w3)"
    and "createFunction d zipData roleARN w3 = (Ok functionARN, w4)"
  shows "Deploy pf d w =
           Deploy_auxiliary_steps pf d functionARN ''created'' roleARN zipData checksum w4"
  using assms by (simp add: Deploy_def)

lemma Deploy_updated:
  assumes "ensureExecutionRole pf d w = (Ok roleARN, w1)"
    and "on_remote (Build pf (SourceDir (config d))) w1 = (Inr (zipData, checksum), w2)"
    and "checkFunctionExists d w2 = (Inr (True, Some found), w3)"
    and "getfn_Configuration found = Some configuration"
    and "conf_FunctionArn configuration = Some functionARN"
    and "updateFunction d zipData roleARN w3 = (None, w4)"
  shows "Deploy pf d w =
           Deploy_auxiliary_steps pf d functionARN ''updated'' roleARN zipData checksum w4"
  using assms by (simp add: Deploy_def)

text \<open>
  Claim C10. When the resource policy document is generated, \<^verbatim>\<open>addResourcePolicy\<close> makes
  exactly one call, \<^verbatim>\<open>AddPermission\<close>, with the statement identifier
  \<^verbatim>\<open>AllowCLMInvoke\<close>, the action \<^verbatim>\<open>lambda:InvokeFunction\<close>, the root of the source
  account as principal and the invoker role as source ARN. Neither the call nor the result
  mentions the generated document: with any other marshaller that succeeds the run is the
  same.
\<close>

theorem addResourcePolicy_grant_ignores_policy_document:
  assumes generated:
    "GenerateLambdaResourcePolicy (json_Marshal pf)
       (CLMServiceRoleARN (config d)) (SourceAccountID (config d)) = Inr policy"
  shows "addResourcePolicy pf d w =
           (case invoke
                   (AddPermission (lambdaClient d)
                      \<lparr>perm_FunctionName = FunctionName (config d),
                       perm_StatementId = ''AllowCLMInvoke'',
                       perm_Action = ''lambda:InvokeFunction'',
                       perm_Principal = ''arn:aws:iam::'' @ SourceAccountID (config d) @ '':root'',
                       perm_SourceArn = CLMServiceRoleARN (config d)\<rparr>)
                   (Call_AddPermission
                      \<lparr>perm_FunctionName = FunctionName (config d),
                       perm_StatementId = ''AllowCLMInvoke'',
                       perm_Action = ''lambda:InvokeFunction'',
                       perm_Principal = ''arn:aws:iam::'' @ SourceAccountID (config d) @ '':root'',
                       perm_SourceArn = CLMServiceRoleARN (config d)\<rparr>) w of
              (Inl err, w1) \<Rightarrow> (if errors_As err ResourceConflict then None else Some err, w1)
            | (Inr out, w1) \<Rightarrow> (None, w1))
       \<and> calls (snd (addResourcePolicy pf d w)) =
           calls w @
             [Call_AddPermission
                \<lparr>perm_FunctionName = FunctionName (config d),
                 perm_StatementId = ''AllowCLMInvoke'',
                 perm_Action = ''lambda:InvokeFunction'',
                 perm_Principal = ''arn:aws:iam::'' @ SourceAccountID (config d) @ '':root'',
                 perm_SourceArn = CLMServiceRoleARN (config d)\<rparr>]
       \<and> (\<forall>pf' policy'.
             GenerateLambdaResourcePolicy (json_Marshal pf')
               (CLMServiceRoleARN (config d)) (SourceAccountID (config d)) = Inr policy'
             \<longrightarrow> addResourcePolicy pf' d w = addResourcePolicy pf d w)"
  using generated
  by (auto simp: addResourcePolicy_def addPermissionInput_def
           split: prod.splits sum.splits dest!: invoke_calls)

text \<open>On the sample account, with two marshallers.\<close>

theorem addResourcePolicy_witness:
  "addResourcePolicy sample_platform sample_deployer (initial_world sample_account) =
     (None,
      \<lparr>remote = sample_account,
       calls = [Call_AddPermission
                  \<lparr>perm_FunctionName = ''fn'', perm_StatementId = ''AllowCLMInvoke'',
                   perm_Action = ''lambda:InvokeFunction'',
                   perm_Principal = ''arn:aws:iam::123:root'', perm_SourceArn = ''arn:clm''\<rparr>],
       stdout = []\<rparr>)
   \<and> addResourcePolicy (sample_platform\<lparr>json_Marshal := (\<lambda>doc. Inr ''{}'')\<rparr>) sample_deployer
        (initial_world sample_account)
     = addResourcePolicy sample_platform sample_deployer (initial_world sample_account)"
proof -
  have generated:
    "GenerateLambdaResourcePolicy (json_Marshal sample_platform)
       (CLMServiceRoleARN (config sample_deployer)) (SourceAccountID (config sample_deployer))
       = Inr ''2012-10-17''"
    by (simp add: deployer_eval)
  have generated':
    "GenerateLambdaResourcePolicy (json_Marshal (sample_platform\<lparr>json_Marshal := (\<lambda>doc. Inr ''{}'')\<rparr>))
       (CLMServiceRoleARN (config sample_deployer)) (SourceAccountID (config sample_deployer))
       = Inr ''{}''"
    by (simp add: deployer_eval)
  have run: "invoke
                   (AddPermission (lambdaClient sample_deployer)
                      \<lparr>perm_FunctionName = FunctionName (config sample_deployer),
                       perm_StatementId = ''AllowCLMInvoke'',
                       perm_Action = ''lambda:InvokeFunction'',
                       perm_Principal = ''arn:aws:iam::'' @ SourceAccountID (config sample_deployer) @ '':root'',
                       perm_SourceArn = CLMServiceRoleARN (config sample_deployer)\<rparr>)
                   (Call_AddPermission
                      \<lparr>perm_FunctionName = FunctionName (config sample_deployer),
                       perm_StatementId = ''AllowCLMInvoke'',
                       perm_Action = ''lambda:InvokeFunction'',
                       perm_Principal = ''arn:aws:iam::'' @ SourceAccountID (config sample_deployer) @ '':root'',
                       perm_SourceArn = CLMServiceRoleARN (config sample_deployer)\<rparr>)
                   (initial_world sample_account)
        = (Inr (),
           \<lparr>remote = sample_account,
            calls = [Call_AddPermission
                  \<lparr>perm_FunctionName = ''fn'', perm_StatementId = ''AllowCLMInvoke'',
                   perm_Action = ''lambda:InvokeFunction'',
                   perm_Principal = ''arn:aws:iam::123:root'', perm_SourceArn = ''arn:clm''\<rparr>],
            stdout = []\<rparr>)"
    by (simp add: deployer_eval)
  note grant = addResourcePolicy_grant_ignores_policy_document
         [OF generated, of "initial_world sample_account"]
  have registered:
    "addResourcePolicy sample_platform sample_deployer (initial_world sample_account) =
     (None,
      \<lparr>remote = sample_account,
       calls = [Call_AddPermission
                  \<lparr>perm_FunctionName = ''fn'', perm_StatementId = ''AllowCLMInvoke'',
                   perm_Action = ''lambda:InvokeFunction'',
                   perm_Principal = ''arn:aws:iam::123:root'', perm_SourceArn = ''arn:clm''\<rparr>],
       stdout = []\<rparr>)"
    using grant [THEN conjunct1] run by simp
  have independent:
    "addResourcePolicy (sample_platform\<lparr>json_Marshal := (\<lambda>doc. Inr ''{}'')\<rparr>) sample_deployer
        (initial_world sample_account)
     = addResourcePolicy sample_platform sample_deployer (initial_world sample_account)"
    using grant [THEN conjunct2, THEN conjunct2] generated' by blast
  show ?thesis using registered independent by simp
qed

text \<open>
  Claim C4 does not hold of the code. When \<^verbatim>\<open>DescribeLogGroups\<close> lists a group that has
  exactly the name, \<^verbatim>\<open>ensureLogGroup\<close> returns at once: the retention policy is not set
  and no tags are applied (the first run below). When the same group exists and the listing
  fails, the creation fails with "already exists" and the step goes on to set the retention
  of 90 days and to apply the tags (the second run).
\<close>

theorem ensureLogGroup_listed_group_returns_early:
  "ensureLogGroup sample_deployer ''/aws/lambda/fn''
     (initial_world (sample_account\<lparr>acct_log_groups := [''/aws/lambda/fn'']\<rparr>)) =
     (Ok (),
      \<lparr>remote = sample_account\<lparr>acct_log_groups := [''/aws/lambda/fn'']\<rparr>,
       calls = [Call_DescribeLogGroups \<lparr>describe_LogGroupNamePrefix = ''/aws/lambda/fn''\<rparr>],
       stdout = []\<rparr>)
   \<and> ensureLogGroup sample_deployer ''/aws/lambda/fn''
     (initial_world (sample_account\<lparr>acct_log_groups := [''/aws/lambda/fn''],
                              acct_failing := [''DescribeLogGroups'']\<rparr>)) =
     (Ok (),
      \<lparr>remote = sample_account\<lparr>acct_log_groups := [''/aws/lambda/fn''],
                               acct_failing := [''DescribeLogGroups'']\<rparr>,
       calls = [Call_DescribeLogGroups \<lparr>describe_LogGroupNamePrefix = ''/aws/lambda/fn''\<rparr>,
                Call_CreateLogGroup \<lparr>createlg_LogGroupName = ''/aws/lambda/fn''\<rparr>,
                Call_PutRetentionPolicy
                  \<lparr>retention_LogGroupName = ''/aws/lambda/fn'', retention_RetentionInDays = 90\<rparr>,
                Call_TagLogGroup
                  \<lparr>taglg_LogGroupName = ''/aws/lambda/fn'',
                   taglg_Tags = Mapping.of_alist [(''env'', ''test'')]\<rparr>],
       stdout = []\<rparr>)"
  by (simp add: deployer_eval)

text \<open>
  Claim C1. The execution role is ensured, the package is built and the log groups client
  names the groups it lists. If \<^verbatim>\<open>GetFunction\<close> answers "not found" and
  \<^verbatim>\<open>CreateFunction\<close>, called with the built archive, returns an ARN, then \<^verbatim>\<open>Deploy\<close>
  returns status \<^verbatim>\<open>created\<close> with that ARN and with the checksum that is the hexadecimal
  SHA-256 digest of the archive bytes that it sent. If \<^verbatim>\<open>GetFunction\<close> returns a function
  with its ARN and the two updates succeed, then \<^verbatim>\<open>Deploy\<close> has called
  \<^verbatim>\<open>UpdateFunctionCode\<close> and then \<^verbatim>\<open>UpdateFunctionConfiguration\<close>, and returns status
  \<^verbatim>\<open>updated\<close> with the ARN that \<^verbatim>\<open>GetFunction\<close> returned.
\<close>

theorem Deploy_creates_or_updates:
  assumes role: "ensureExecutionRole pf d w = (Ok roleARN, w1)"
    and built: "on_remote (Build pf (SourceDir (config d))) w1 = (Inr (zipData, checksum), w2)"
    and named: "log_groups_named (cwLogsClient d)"
  shows
    "(\<forall>err w3 out functionARN w4.
        invoke (GetFunction (lambdaClient d) \<lparr>getfn_FunctionName = FunctionName (config d)\<rparr>)
          (Call_GetFunction \<lparr>getfn_FunctionName = FunctionName (config d)\<rparr>) w2 = (Inl err, w3)
        \<longrightarrow> errors_As err ResourceNotFound
        \<longrightarrow> invoke
              (CreateFunction (lambdaClient d)
                 \<lparr>createfn_FunctionName = FunctionName (config d),
                  createfn_Runtime = Runtime (config d),
                  createfn_Role = roleARN,
                  createfn_Handler = ''bootstrap'',
                  createfn_Code_ZipFile = zipData,
                  createfn_MemorySize = MemorySize (config d),
                  createfn_Timeout = Timeout (config d),
                  createfn_Architectures = [Architecture (config d)],
                  createfn_Description = ''ROSA OIDC provider provisioner''\<rparr>)
              (Call_CreateFunction (createFunctionInput (config d) zipData roleARN)) w3
            = (Inr out, w4)
        \<longrightarrow> createfn_FunctionArn out = Some functionARN
        \<longrightarrow> fst (Deploy pf d w) =
              Ok \<lparr>res_FunctionARN = functionARN,
                  res_FunctionName = FunctionName (config d),
                  res_ExecutionRole = roleARN,
                  res_LogGroupName = ''/aws/lambda/'' @ FunctionName (config d),
                  res_Status = ''created'',
                  res_PackageSize = length zipData,
                  res_PackageChecksum = Sprintf_x (sha256_Sum256 pf zipData)\<rparr>
          \<and> (\<exists>later. calls (snd (Deploy pf d w)) = calls w4 @ later)
          \<and> calls w4 =
              calls w2 @
                [Call_GetFunction \<lparr>getfn_FunctionName = FunctionName (config d)\<rparr>,
                 Call_CreateFunction (createFunctionInput (config d) zipData roleARN)])
   \<and> (\<forall>found configuration functionARN w3 w4 w5.
        invoke (GetFunction (lambdaClient d) \<lparr>getfn_FunctionName = FunctionName (config d)\<rparr>)
          (Call_GetFunction \<lparr>getfn_FunctionName = FunctionName (config d)\<rparr>) w2 = (Inr found, w3)
        \<longrightarrow> getfn_Configuration found = Some configuration
        \<longrightarrow> conf_FunctionArn configuration = Some functionARN
        \<longrightarrow> invoke
              (UpdateFunctionCode (lambdaClient d)
                 \<lparr>updcode_FunctionName = FunctionName (config d), updcode_ZipFile = zipData\<rparr>)
              (Call_UpdateFunctionCode
                 \<lparr>updcode_FunctionName = FunctionName (config d), updcode_ZipFile = zipData\<rparr>) w3
            = (Inr (), w4)
        \<longrightarrow> invoke
              (UpdateFunctionConfiguration (lambdaClient d)
                 \<lparr>updconf_FunctionName = FunctionName (config d),
                  updconf_Runtime = Runtime (config d),
                  updconf_Role = roleARN,
                  updconf_Handler = ''bootstrap'',
                  updconf_MemorySize = MemorySize (config d),
                  updconf_Timeout = Timeout (config d)\<rparr>)
              (Call_UpdateFunctionConfiguration
                 \<lparr>updconf_FunctionName = FunctionName (config d),
                  updconf_Runtime = Runtime (config d),
                  updconf_Role = roleARN,
                  updconf_Handler = ''bootstrap'',
                  updconf_MemorySize = MemorySize (config d),
                  updconf_Timeout = Timeout (config d)\<rparr>) w4
            = (Inr (), w5)
        \<longrightarrow> fst (Deploy pf d w) =
              Ok \<lparr>res_FunctionARN = functionARN,
                  res_FunctionName = FunctionName (config d),
                  res_ExecutionRole = roleARN,
                  res_LogGroupName = ''/aws/lambda/'' @ FunctionName (config d),
                  res_Status = ''updated'',
                  res_PackageSize = length zipData,
                  res_PackageChecksum = Sprintf_x (sha256_Sum256 pf zipData)\<rparr>
          \<and> (\<exists>later. calls (snd (Deploy pf d w)) = calls w5 @ later)
          \<and> calls w5 =
              calls w2 @
                [Call_GetFunction \<lparr>getfn_FunctionName = FunctionName (config d)\<rparr>,
                 Call_UpdateFunctionCode
                   \<lparr>updcode_FunctionName = FunctionName (config d), updcode_ZipFile = zipData\<rparr>,
                 Call_UpdateFunctionConfiguration
                   \<lparr>updconf_FunctionName = FunctionName (config d),
                    updconf_Runtime = Runtime (config d),
                    updconf_Role = roleARN,
                    updconf_Handler = ''bootstrap'',
                    updconf_MemorySize = MemorySize (config d),
                    updconf_Timeout = Timeout (config d)\<rparr>])"
proof (intro conjI allI impI)
  fix err w3 out functionARN w4
  assume get: "invoke (GetFunction (lambdaClient d) \<lparr>getfn_FunctionName = FunctionName (config d)\<rparr>)
          (Call_GetFunction \<lparr>getfn_FunctionName = FunctionName (config d)\<rparr>) w2 = (Inl err, w3)"
    and notfound: "errors_As err ResourceNotFound"
    and create: "invoke
              (CreateFunction (lambdaClient d)
                 \<lparr>createfn_FunctionName = FunctionName (config d),
                  createfn_Runtime = Runtime (config d),
                  createfn_Role = roleARN,
                  createfn_Handler = ''bootstrap'',
                  createfn_Code_ZipFile = zipData,
                  createfn_MemorySize = MemorySize (config d),
                  createfn_Timeout = Timeout (config d),
                  createfn_Architectures = [Architecture (config d)],
                  createfn_Description = ''ROSA OIDC provider provisioner''\<rparr>)
              (Call_CreateFunction (createFunctionInput (config d) zipData roleARN)) w3
            = (Inr out, w4)"
    and arn: "createfn_FunctionArn out = Some functionARN"
  have chk: "checkFunctionExists d w2 = (Inr (False, None), w3)"
    using get notfound by (simp add: checkFunctionExists_def)
  have cr: "createFunction d zipData roleARN w3 = (Ok functionARN, w4)"
    using create arn by (simp add: createFunction_def createFunctionInput_def)
  have dep: "Deploy pf d w =
      Deploy_auxiliary_steps pf d functionARN ''created'' roleARN zipData checksum w4"
    using role built chk cr by (rule Deploy_created)
  show "fst (Deploy pf d w) =
              Ok \<lparr>res_FunctionARN = functionARN,
                  res_FunctionName = FunctionName (config d),
                  res_ExecutionRole = roleARN,
                  res_LogGroupName = ''/aws/lambda/'' @ FunctionName (config d),
                  res_Status = ''created'',
                  res_PackageSize = length zipData,
                  res_PackageChecksum = Sprintf_x (sha256_Sum256 pf zipData)\<rparr>"
    using dep Deploy_auxiliary_steps_result [OF named] on_remote_Build_checksum [OF built]
    by simp
  show "\<exists>later. calls (snd (Deploy pf d w)) = calls w4 @ later"
    using dep Deploy_auxiliary_steps_extends by simp
  show "calls w4 =
              calls w2 @
                [Call_GetFunction \<lparr>getfn_FunctionName = FunctionName (config d)\<rparr>,
                 Call_CreateFunction (createFunctionInput (config d) zipData roleARN)]"
    using invoke_calls [OF get] invoke_calls [OF create] by simp
next
  fix found configuration functionARN w3 w4 w5
  assume get: "invoke (GetFunction (lambdaClient d) \<lparr>getfn_FunctionName = FunctionName (config d)\<rparr>)
          (Call_GetFunction \<lparr>getfn_FunctionName = FunctionName (config d)\<rparr>) w2 = (Inr found, w3)"
    and conf: "getfn_Configuration found = Some configuration"
    and arn: "conf_FunctionArn configuration = Some functionARN"
    and code: "invoke
              (UpdateFunctionCode (lambdaClient d)
                 \<lparr>updcode_FunctionName = FunctionName (config d), updcode_ZipFile = zipData\<rparr>)
              (Call_UpdateFunctionCode
                 \<lparr>updcode_FunctionName = FunctionName (config d), updcode_ZipFile = zipData\<rparr>) w3
            = (Inr (), w4)"
    and conf_upd: "invoke
              (UpdateFunctionConfiguration (lambdaClient d)
                 \<lparr>updconf_FunctionName = FunctionName (config d),
                  updconf_Runtime = Runtime (config d),
                  updconf_Role = roleARN,
                  updconf_Handler = ''bootstrap'',
                  updconf_MemorySize = MemorySize (config d),
                  updconf_Timeout = Timeout (config d)\<rparr>)
              (Call_UpdateFunctionConfiguration
                 \<lparr>updconf_FunctionName = FunctionName (config d),
                  updconf_Runtime = Runtime (config d),
                  updconf_Role = roleARN,
                  updconf_Handler = ''bootstrap'',
                  updconf_MemorySize = MemorySize (config d),
                  updconf_Timeout = Timeout (config d)\<rparr>) w4
            = (Inr (), w5)"
  have chk: "checkFunctionExists d w2 = (Inr (True, Some found), w3)"
    using get by (simp add: checkFunctionExists_def)
  have upd: "updateFunction d zipData roleARN w3 = (None, w5)"
    using code conf_upd
    by (simp add: updateFunction_def updateFunctionCodeInput_def
          updateFunctionConfigurationInput_def)
  have dep: "Deploy pf d w =
      Deploy_auxiliary_steps pf d functionARN ''updated'' roleARN zipData checksum w5"
    using role built chk conf arn upd by (rule Deploy_updated)
  show "fst (Deploy pf d w) =
              Ok \<lparr>res_FunctionARN = functionARN,
                  res_FunctionName = FunctionName (config d),
                  res_ExecutionRole = roleARN,
                  res_LogGroupName = ''/aws/lambda/'' @ FunctionName (config d),
                  res_Status = ''updated'',
                  res_PackageSize = length zipData,
                  res_PackageChecksum = Sprintf_x (sha256_Sum256 pf zipData)\<rparr>"
    using dep Deploy_auxiliary_steps_result [OF named] on_remote_Build_checksum [OF built]
    by simp
  show "\<exists>later. calls (snd (Deploy pf d w)) = calls w5 @ later"
    using dep Deploy_auxiliary_steps_extends by simp
  show "calls w5 =
              calls w2 @
                [Call_GetFunction \<lparr>getfn_FunctionName = FunctionName (config d)\<rparr>,
                 Call_UpdateFunctionCode
                   \<lparr>updcode_FunctionName = FunctionName (config d), updcode_ZipFile = zipData\<rparr>,
                 Call_UpdateFunctionConfiguration
                   \<lparr>updconf_FunctionName = FunctionName (config d),
                    updconf_Runtime = Runtime (config d),
                    updconf_Role = roleARN,
                    updconf_Handler = ''bootstrap'',
                    updconf_MemorySize = MemorySize (config d),
                    updconf_Timeout = Timeout (config d)\<rparr>]"
    using invoke_calls [OF get] invoke_calls [OF code] invoke_calls [OF conf_upd] by simp
qed

text \<open>A creation and an update on the sample account.\<close>

theorem Deploy_creates_or_updates_witness:
  "fst (Deploy sample_platform sample_deployer (initial_world sample_account)) =
     Ok \<lparr>res_FunctionARN = ''arn:function:fn'', res_FunctionName = ''fn'',
         res_ExecutionRole = ''arn:role/role'', res_LogGroupName = ''/aws/lambda/fn'',
         res_Status = ''created'', res_PackageSize = 3, res_PackageChecksum = ''03''\<rparr>
   \<and> fst (Deploy sample_platform sample_deployer
            (initial_world (sample_account\<lparr>acct_functions := [''fn'']\<rparr>))) =
     Ok \<lparr>res_FunctionARN = ''arn:function:fn'', res_FunctionName = ''fn'',
         res_ExecutionRole = ''arn:role/role'', res_LogGroupName = ''/aws/lambda/fn'',
         res_Status = ''updated'', res_PackageSize = 3, res_PackageChecksum = ''03''\<rparr>"
proof -
  let ?P = sample_platform
  let ?D = sample_deployer
  let ?getrole = "Call_GetRole \<lparr>getrole_RoleName = ''role''\<rparr>"
  let ?getfn = "\<lparr>getfn_FunctionName = FunctionName (config ?D)\<rparr>"
  let ?createfn = "\<lparr>createfn_FunctionName = FunctionName (config ?D),
                  createfn_Runtime = Runtime (config ?D),
                  createfn_Role = ''arn:role/role'',
                  createfn_Handler = ''bootstrap'',
                  createfn_Code_ZipFile = [1, 2, 3],
                  createfn_MemorySize = MemorySize (config ?D),
                  createfn_Timeout = Timeout (config ?D),
                  createfn_Architectures = [Architecture (config ?D)],
                  createfn_Description = ''ROSA OIDC provider provisioner''\<rparr>"
  let ?updcode = "\<lparr>updcode_FunctionName = FunctionName (config ?D), updcode_ZipFile = [1, 2, 3]\<rparr>"
  let ?updconf = "\<lparr>updconf_FunctionName = FunctionName (config ?D),
                  updconf_Runtime = Runtime (config ?D),
                  updconf_Role = ''arn:role/role'',
                  updconf_Handler = ''bootstrap'',
                  updconf_MemorySize = MemorySize (config ?D),
                  updconf_Timeout = Timeout (config ?D)\<rparr>"
  have named: "log_groups_named (cwLogsClient ?D)"
    by (rule log_groups_named_sample_deployer)
  have sum: "Sprintf_x (sha256_Sum256 ?P [1, 2, 3]) = ''03''"
    by (simp add: deployer_eval)
  have conf: "FunctionName (config ?D) = ''fn''"
    by (simp add: deployer_eval)

  txt \<open>No function named \<open>fn\<close> exists: the function is created.\<close>
  let ?w = "initial_world sample_account :: (account, aws_call) world"
  let ?w1 = "\<lparr>remote = sample_account, calls = [?getrole], stdout = []\<rparr>"
  let ?w3 = "snd (invoke (GetFunction (lambdaClient ?D) ?getfn) (Call_GetFunction ?getfn) ?w1)"
  let ?w4 = "snd (invoke (CreateFunction (lambdaClient ?D) ?createfn)
                    (Call_CreateFunction (createFunctionInput (config ?D) [1, 2, 3] ''arn:role/role'')) ?w3)"
  have role: "ensureExecutionRole ?P ?D ?w = (Ok ''arn:role/role'', ?w1)"
    by (simp add: deployer_eval)
  have built: "on_remote (Build ?P (SourceDir (config ?D))) ?w1 = (Inr ([1, 2, 3], ''03''), ?w1)"
    by (simp add: deployer_eval)
  have get: "invoke (GetFunction (lambdaClient ?D) ?getfn) (Call_GetFunction ?getfn) ?w1
      = (Inl (ResourceNotFoundException ''fn''), ?w3)"
    by (simp add: deployer_eval)
  have notfound: "errors_As (ResourceNotFoundException ''fn'') ResourceNotFound"
    by simp
  have create: "invoke (CreateFunction (lambdaClient ?D) ?createfn)
                    (Call_CreateFunction (createFunctionInput (config ?D) [1, 2, 3] ''arn:role/role'')) ?w3
      = (Inr \<lparr>createfn_FunctionArn = Some ''arn:function:fn''\<rparr>, ?w4)"
    by (simp add: deployer_eval)
  have arn: "createfn_FunctionArn \<lparr>createfn_FunctionArn = Some ''arn:function:fn''\<rparr>
      = Some ''arn:function:fn''"
    by simp
  note created =
    Deploy_creates_or_updates [OF role built named, THEN conjunct1, rule_format,
      OF get notfound create arn, THEN conjunct1]

  txt \<open>A function named \<open>fn\<close> exists: its code and its configuration are updated.\<close>
  let ?account' = "sample_account\<lparr>acct_functions := [''fn'']\<rparr>"
  let ?v = "initial_world ?account' :: (account, aws_call) world"
  let ?v1 = "\<lparr>remote = ?account', calls = [?getrole], stdout = []\<rparr>"
  let ?v3 = "snd (invoke (GetFunction (lambdaClient ?D) ?getfn) (Call_GetFunction ?getfn) ?v1)"
  let ?v4 = "snd (invoke (UpdateFunctionCode (lambdaClient ?D) ?updcode)
                    (Call_UpdateFunctionCode ?updcode) ?v3)"
  let ?v5 = "snd (invoke (UpdateFunctionConfiguration (lambdaClient ?D) ?updconf)
                    (Call_UpdateFunctionConfiguration ?updconf) ?v4)"
  let ?found = "\<lparr>getfn_Configuration = Some \<lparr>conf_FunctionArn = Some ''arn:function:fn''\<rparr>\<rparr>"
  have role': "ensureExecutionRole ?P ?D ?v = (Ok ''arn:role/role'', ?v1)"
    by (simp add: deployer_eval)
  have built': "on_remote (Build ?P (SourceDir (config ?D))) ?v1 = (Inr ([1, 2, 3], ''03''), ?v1)"
    by (simp add: deployer_eval)
  have get': "invoke (GetFunction (lambdaClient ?D) ?getfn) (Call_GetFunction ?getfn) ?v1
      = (Inr ?found, ?v3)"
    by (simp add: deployer_eval)
  have conf': "getfn_Configuration ?found = Some \<lparr>conf_FunctionArn = Some ''arn:function:fn''\<rparr>"
    by simp
  have arn': "conf_FunctionArn \<lparr>conf_FunctionArn = Some ''arn:function:fn''\<rparr> = Some ''arn:function:fn''"
    by simp
  have code: "invoke (UpdateFunctionCode (lambdaClient ?D) ?updcode)
                    (Call_UpdateFunctionCode ?updcode) ?v3 = (Inr (), ?v4)"
    by (simp add: deployer_eval)
  have configuration: "invoke (UpdateFunctionConfiguration (lambdaClient ?D) ?updconf)
                    (Call_UpdateFunctionConfiguration ?updconf) ?v4 = (Inr (), ?v5)"
    by (simp add: deployer_eval)
  note updated =
    Deploy_creates_or_updates [OF role' built' named, THEN conjunct2, rule_format,
      OF get' conf' arn' code configuration, THEN conjunct1]
  show ?thesis
    using created updated sum conf by simp
qed

text \<open>
  Claim C2. An error of one of the first four steps (execution role, package build,
  function lookup, creation or update of the function) makes \<^verbatim>\<open>Deploy\<close> return that
  error, wrapped in a message that names the step, and no result. Once the four steps have
  succeeded, \<^verbatim>\<open>Deploy\<close> returns no error whatever the invocation policy, log group and
  tagging steps do, and it returns the complete result when the log groups client names the
  groups it lists (a listed group without a name makes the log group step panic).
\<close>

theorem Deploy_fatal_and_tolerated_steps:
  "(\<forall>err w1.
      ensureExecutionRole pf d w = (Err err, w1)
      \<longrightarrow> Deploy pf d w = (Err (Wrapped ''failed to ensure execution role'' err), w1))
   \<and> (\<forall>roleARN w1 err w2.
      ensureExecutionRole pf d w = (Ok roleARN, w1)
      \<longrightarrow> on_remote (Build pf (SourceDir (config d))) w1 = (Inl err, w2)
      \<longrightarrow> Deploy pf d w = (Err (Wrapped ''failed to build Lambda package'' err), w2))
   \<and> (\<forall>roleARN w1 zipData checksum w2 err w3.
      ensureExecutionRole pf d w = (Ok roleARN, w1)
      \<longrightarrow> on_remote (Build pf (SourceDir (config d))) w1 = (Inr (zipData, checksum), w2)
      \<longrightarrow> checkFunctionExists d w2 = (Inl err, w3)
      \<longrightarrow> Deploy pf d w = (Err (Wrapped ''failed to check if function exists'' err), w3))
   \<and> (\<forall>roleARN w1 zipData checksum w2 existingFunc w3 err w4.
      ensureExecutionRole pf d w = (Ok roleARN, w1)
      \<longrightarrow> on_remote (Build pf (SourceDir (config d))) w1 = (Inr (zipData, checksum), w2)
      \<longrightarrow> checkFunctionExists d w2 = (Inr (False, existingFunc), w3)
      \<longrightarrow> createFunction d zipData roleARN w3 = (Err err, w4)
      \<longrightarrow> Deploy pf d w = (Err (Wrapped ''failed to create function'' err), w4))
   \<and> (\<forall>roleARN w1 zipData checksum w2 found configuration functionARN w3 err w4.
      ensureExecutionRole pf d w = (Ok roleARN, w1)
      \<longrightarrow> on_remote (Build pf (SourceDir (config d))) w1 = (Inr (zipData, checksum), w2)
      \<longrightarrow> checkFunctionExists d w2 = (Inr (True, Some found), w3)
      \<longrightarrow> getfn_Configuration found = Some configuration
      \<longrightarrow> conf_FunctionArn configuration = Some functionARN
      \<longrightarrow> updateFunction d zipData roleARN w3 = (Some err, w4)
      \<longrightarrow> Deploy pf d w = (Err (Wrapped ''failed to update function'' err), w4))
   \<and> (\<forall>roleARN w1 zipData checksum w2 existingFunc w3 functionARN w4.
      ensureExecutionRole pf d w = (Ok roleARN, w1)
      \<longrightarrow> on_remote (Build pf (SourceDir (config d))) w1 = (Inr (zipData, checksum), w2)
      \<longrightarrow> checkFunctionExists d w2 = (Inr (False, existingFunc), w3)
      \<longrightarrow> createFunction d zipData roleARN w3 = (Ok functionARN, w4)
      \<longrightarrow> (\<forall>err. fst (Deploy pf d w) \<noteq> Err err)
        \<and> (log_groups_named (cwLogsClient d)
           \<longrightarrow> fst (Deploy pf d w) =
                 Ok \<lparr>res_FunctionARN = functionARN,
                     res_FunctionName = FunctionName (config d),
                     res_ExecutionRole = roleARN,
                     res_LogGroupName = ''/aws/lambda/'' @ FunctionName (config d),
                     res_Status = ''created'',
                     res_PackageSize = length zipData,
                     res_PackageChecksum = checksum\<rparr>))
   \<and> (\<forall>roleARN w1 zipData checksum w2 found configuration functionARN w3 w4.
      ensureExecutionRole pf d w = (Ok roleARN, w1)
      \<longrightarrow> on_remote (Build pf (SourceDir (config d))) w1 = (Inr (zipData, checksum), w2)
      \<longrightarrow> checkFunctionExists d w2 = (Inr (True, Some found), w3)
      \<longrightarrow> getfn_Configuration found = Some configuration
      \<longrightarrow> conf_FunctionArn configuration = Some functionARN
      \<longrightarrow> updateFunction d zipData roleARN w3 = (None, w4)
      \<longrightarrow> (\<forall>err. fst (Deploy pf d w) \<noteq> Err err)
        \<and> (log_groups_named (cwLogsClient d)
           \<longrightarrow> fst (Deploy pf d w) =
                 Ok \<lparr>res_FunctionARN = functionARN,
                     res_FunctionName = FunctionName (config d),
                     res_ExecutionRole = roleARN,
                     res_LogGroupName = ''/aws/lambda/'' @ FunctionName (config d),
                     res_Status = ''updated'',
                     res_PackageSize = length zipData,
                     res_PackageChecksum = checksum\<rparr>))"
proof (intro conjI allI impI)
  fix err w1
  assume "ensureExecutionRole pf d w = (Err err, w1)"
  then show "Deploy pf d w = (Err (Wrapped ''failed to ensure execution role'' err), w1)"
    by (simp add: Deploy_def)
next
  fix roleARN w1 err w2
  assume "ensureExecutionRole pf d w = (Ok roleARN, w1)"
    and "on_remote (Build pf (SourceDir (config d))) w1 = (Inl err, w2)"
  then show "Deploy pf d w = (Err (Wrapped ''failed to build Lambda package'' err), w2)"
    by (simp add: Deploy_def)
next
  fix roleARN w1 zipData checksum w2 err w3
  assume "ensureExecutionRole pf d w = (Ok roleARN, w1)"
    and "on_remote (Build pf (SourceDir (config d))) w1 = (Inr (zipData, checksum), w2)"
    and "checkFunctionExists d w2 = (Inl err, w3)"
  then show "Deploy pf d w = (Err (Wrapped ''failed to check if function exists'' err), w3)"
    by (simp add: Deploy_def)
next
  fix roleARN w1 zipData checksum w2 existingFunc w3 err w4
  assume "ensureExecutionRole pf d w = (Ok roleARN, w1)"
    and "on_remote (Build pf (SourceDir (config d))) w1 = (Inr (zipData, checksum), w2)"
    and "checkFunctionExists d w2 = (Inr (False, existingFunc), w3)"
    and "createFunction d zipData roleARN w3 = (Err err, w4)"
  then show "Deploy pf d w = (Err (Wrapped ''failed to create function'' err), w4)"
    by (simp add: Deploy_def)
next
  fix roleARN w1 zipData checksum w2 found configuration functionARN w3 err w4
  assume "ensureExecutionRole pf d w = (Ok roleARN, w1)"
    and "on_remote (Build pf (SourceDir (config d))) w1 = (Inr (zipData, checksum), w2)"
    and "checkFunctionExists d w2 = (Inr (True, Some found), w3)"
    and "getfn_Configuration found = Some configuration"
    and "conf_FunctionArn configuration = Some functionARN"
    and "updateFunction d zipData roleARN w3 = (Some err, w4)"
  then show "Deploy pf d w = (Err (Wrapped ''failed to update function'' err), w4)"
    by (simp add: Deploy_def)
next
  fix roleARN w1 zipData checksum w2 existingFunc w3 functionARN w4 err
  assume "ensureExecutionRole pf d w = (Ok roleARN, w1)"
    and "on_remote (Build pf (SourceDir (config d))) w1 = (Inr (zipData, checksum), w2)"
    and "checkFunctionExists d w2 = (Inr (False, existingFunc), w3)"
    and "createFunction d zipData roleARN w3 = (Ok functionARN, w4)"
  then have "Deploy pf d w =
      Deploy_auxiliary_steps pf d functionARN ''created'' roleARN zipData checksum w4"
    by (rule Deploy_created)
  then show "fst (Deploy pf d w) \<noteq> Err err"
    by (simp add: Deploy_auxiliary_steps_no_error)
next
  fix roleARN w1 zipData checksum w2 existingFunc w3 functionARN w4
  assume "ensureExecutionRole pf d w = (Ok roleARN, w1)"
    and "on_remote (Build pf (SourceDir (config d))) w1 = (Inr (zipData, checksum), w2)"
    and "checkFunctionExists d w2 = (Inr (False, existingFunc), w3)"
    and "createFunction d zipData roleARN w3 = (Ok functionARN, w4)"
  then have "Deploy pf d w =
      Deploy_auxiliary_steps pf d functionARN ''created'' roleARN zipData checksum w4"
    by (rule Deploy_created)
  moreover assume "log_groups_named (cwLogsClient d)"
  ultimately show "fst (Deploy pf d w) =
                 Ok \<lparr>res_FunctionARN = functionARN,
                     res_FunctionName = FunctionName (config d),
                     res_ExecutionRole = roleARN,
                     res_LogGroupName = ''/aws/lambda/'' @ FunctionName (config d),
                     res_Status = ''created'',
                     res_PackageSize = length zipData,
                     res_PackageChecksum = checksum\<rparr>"
    by (simp add: Deploy_auxiliary_steps_result)
next
  fix roleARN w1 zipData checksum w2 found configuration functionARN w3 w4 err
  assume "ensureExecutionRole pf d w = (Ok roleARN, w1)"
    and "on_remote (Build pf (SourceDir (config d))) w1 = (Inr (zipData, checksum), w2)"
    and "checkFunctionExists d w2 = (Inr (True, Some found), w3)"
    and "getfn_Configuration found = Some configuration"
    and "conf_FunctionArn configuration = Some functionARN"
    and "updateFunction d zipData roleARN w3 = (None, w4)"
  then have "Deploy pf d w =
      Deploy_auxiliary_steps pf d functionARN ''updated'' roleARN zipData checksum w4"
    by (rule Deploy_updated)
  then show "fst (Deploy pf d w) \<noteq> Err err"
    by (simp add: Deploy_auxiliary_steps_no_error)
next
  fix roleARN w1 zipData checksum w2 found configuration functionARN w3 w4
  assume "ensureExecutionRole pf d w = (Ok roleARN, w1)"
    and "on_remote (Build pf (SourceDir (config d))) w1 = (Inr (zipData, checksum), w2)"
    and "checkFunctionExists d w2 = (Inr (True, Some found), w3)"
    and "getfn_Configuration found = Some configuration"
    and "conf_FunctionArn configuration = Some functionARN"
    and "updateFunction d zipData roleARN w3 = (None, w4)"
  then have "Deploy pf d w =
      Deploy_auxiliary_steps pf d functionARN ''updated'' roleARN zipData checksum w4"
    by (rule Deploy_updated)
  moreover assume "log_groups_named (cwLogsClient d)"
  ultimately show "fst (Deploy pf d w) =
                 Ok \<lparr>res_FunctionARN = functionARN,
                     res_FunctionName = FunctionName (config d),
                     res_ExecutionRole = roleARN,
                     res_LogGroupName = ''/aws/lambda/'' @ FunctionName (config d),
                     res_Status = ''updated'',
                     res_PackageSize = length zipData,
                     res_PackageChecksum = checksum\<rparr>"
    by (simp add: Deploy_auxiliary_steps_result)
qed

text \<open>One run for each conjunct: every fatal step fails once; the three later steps fail
  together, after a creation and after an update.\<close>

theorem Deploy_fatal_and_tolerated_steps_witness:
  "fst (Deploy sample_platform sample_deployer
          (initial_world (sample_account\<lparr>acct_failing := [''GetRole'']\<rparr>))) =
     Err (Wrapped ''failed to ensure execution role''
            (Wrapped ''failed to check if role exists'' (ErrorString ''AccessDenied'')))
   \<and> fst (Deploy sample_platform sample_deployer
          (initial_world (sample_account\<lparr>acct_failing := [''go build'']\<rparr>))) =
     Err (Wrapped ''failed to build Lambda package''
            (Wrapped ''failed to compile binary''
               (CompilationFailed (ErrorString ''exit status 1'') '''')))
   \<and> fst (Deploy sample_platform sample_deployer
          (initial_world (sample_account\<lparr>acct_failing := [''GetFunction'']\<rparr>))) =
     Err (Wrapped ''failed to check if function exists'' (ErrorString ''AccessDenied''))
   \<and> fst (Deploy sample_platform sample_deployer
          (initial_world (sample_account\<lparr>acct_failing := [''CreateFunction'']\<rparr>))) =
     Err (Wrapped ''failed to create function'' (ErrorString ''AccessDenied''))
   \<and> fst (Deploy sample_platform sample_deployer
          (initial_world (sample_account\<lparr>acct_functions := [''fn''],
                                   acct_failing := [''UpdateFunctionCode'']\<rparr>))) =
     Err (Wrapped ''failed to update function''
            (Wrapped ''failed to update function code'' (ErrorString ''AccessDenied'')))
   \<and> fst (Deploy sample_platform sample_deployer
          (initial_world (sample_account
             \<lparr>acct_failing := [''AddPermission'', ''PutRetentionPolicy'', ''TagResource'']\<rparr>))) =
     Ok \<lparr>res_FunctionARN = ''arn:function:fn'', res_FunctionName = ''fn'',
         res_ExecutionRole = ''arn:role/role'', res_LogGroupName = ''/aws/lambda/fn'',
         res_Status = ''created'', res_PackageSize = 3, res_PackageChecksum = ''03''\<rparr>
   \<and> stdout (snd (Deploy sample_platform sample_deployer
          (initial_world (sample_account
             \<lparr>acct_failing := [''AddPermission'', ''PutRetentionPolicy'', ''TagResource'']\<rparr>)))) =
     [(''Warning: failed to add resource policy: %v\<newline>'', ErrorString ''AccessDenied''),
      (''Warning: failed to ensure log group: %v\<newline>'',
       Wrapped ''failed to set retention policy'' (ErrorString ''AccessDenied'')),
      (''Warning: failed to tag function: %v\<newline>'', ErrorString ''AccessDenied'')]
   \<and> fst (Deploy sample_platform sample_deployer
          (initial_world (sample_account
             \<lparr>acct_functions := [''fn''],
              acct_failing := [''AddPermission'', ''CreateLogGroup'', ''TagResource'']\<rparr>))) =
     Ok \<lparr>res_FunctionARN = ''arn:function:fn'', res_FunctionName = ''fn'',
         res_ExecutionRole = ''arn:role/role'', res_LogGroupName = ''/aws/lambda/fn'',
         res_Status = ''updated'', res_PackageSize = 3, res_PackageChecksum = ''03''\<rparr>"
proof -
  let ?P = sample_platform
  let ?D = sample_deployer
  have named: "log_groups_named (cwLogsClient ?D)"
    using log_groups_named_sample by (simp add: sample_deployer_def)
  have conf: "FunctionName (config ?D) = ''fn''"
    by (simp add: deployer_eval)

  txt \<open>Step 1 fails.\<close>
  let ?a = "initial_world (sample_account\<lparr>acct_failing := [''GetRole'']\<rparr>) :: (account, aws_call) world"
  have a1: "ensureExecutionRole ?P ?D ?a =
      (Err (Wrapped ''failed to check if role exists'' (ErrorString ''AccessDenied'')),
       snd (ensureExecutionRole ?P ?D ?a))"
    by (simp add: deployer_eval)
  note step1 = Deploy_fatal_and_tolerated_steps
    [of ?P ?D ?a, THEN conjunct1, rule_format, OF a1]

  txt \<open>Step 2 fails.\<close>
  let ?b = "initial_world (sample_account\<lparr>acct_failing := [''go build'']\<rparr>) :: (account, aws_call) world"
  let ?b1 = "snd (ensureExecutionRole ?P ?D ?b)"
  have b1: "ensureExecutionRole ?P ?D ?b = (Ok ''arn:role/role'', ?b1)"
    by (simp add: deployer_eval)
  have b2: "on_remote (Build ?P (SourceDir (config ?D))) ?b1 =
      (Inl (Wrapped ''failed to compile binary''
              (CompilationFailed (ErrorString ''exit status 1'') '''')),
       snd (on_remote (Build ?P (SourceDir (config ?D))) ?b1))"
    by (simp add: deployer_eval)
  note step2 = Deploy_fatal_and_tolerated_steps
    [of ?P ?D ?b, THEN conjunct2, THEN conjunct1, rule_format, OF b1 b2]

  txt \<open>Step 3 fails.\<close>
  let ?c = "initial_world (sample_account\<lparr>acct_failing := [''GetFunction'']\<rparr>) :: (account, aws_call) world"
  let ?c1 = "snd (ensureExecutionRole ?P ?D ?c)"
  let ?c2 = "snd (on_remote (Build ?P (SourceDir (config ?D))) ?c1)"
  have c1: "ensureExecutionRole ?P ?D ?c = (Ok ''arn:role/role'', ?c1)"
    by (simp add: deployer_eval)
  have c2: "on_remote (Build ?P (SourceDir (config ?D))) ?c1 = (Inr ([1, 2, 3], ''03''), ?c2)"
    by (simp add: deployer_eval)
  have c3: "checkFunctionExists ?D ?c2 =
      (Inl (ErrorString ''AccessDenied''), snd (checkFunctionExists ?D ?c2))"
    by (simp add: deployer_eval)
  note step3 = Deploy_fatal_and_tolerated_steps
    [of ?P ?D ?c, THEN conjunct2, THEN conjunct2, THEN conjunct1, rule_format, OF c1 c2 c3]

  txt \<open>Step 4 fails, creating.\<close>
  let ?e = "initial_world (sample_account\<lparr>acct_failing := [''CreateFunction'']\<rparr>) :: (account, aws_call) world"
  let ?e1 = "snd (ensureExecutionRole ?P ?D ?e)"
  let ?e2 = "snd (on_remote (Build ?P (SourceDir (config ?D))) ?e1)"
  let ?e3 = "snd (checkFunctionExists ?D ?e2)"
  have e1: "ensureExecutionRole ?P ?D ?e = (Ok ''arn:role/role'', ?e1)"
    by (simp add: deployer_eval)
  have e2: "on_remote (Build ?P (SourceDir (config ?D))) ?e1 = (Inr ([1, 2, 3], ''03''), ?e2)"
    by (simp add: deployer_eval)
  have e3: "checkFunctionExists ?D ?e2 = (Inr (False, None), ?e3)"
    by (simp add: deployer_eval)
  have e4: "createFunction ?D [1, 2, 3] ''arn:role/role'' ?e3 =
      (Err (ErrorString ''AccessDenied''), snd (createFunction ?D [1, 2, 3] ''arn:role/role'' ?e3))"
    by (simp add: deployer_eval)
  note step4_create = Deploy_fatal_and_tolerated_steps
    [of ?P ?D ?e, THEN conjunct2, THEN conjunct2, THEN conjunct2, THEN conjunct1, rule_format,
     OF e1 e2 e3 e4]

  txt \<open>Step 4 fails, updating.\<close>
  let ?f = "initial_world (sample_account\<lparr>acct_functions := [''fn''],
                                   acct_failing := [''UpdateFunctionCode'']\<rparr>)
            :: (account, aws_call) world"
  let ?f1 = "snd (ensureExecutionRole ?P ?D ?f)"
  let ?f2 = "snd (on_remote (Build ?P (SourceDir (config ?D))) ?f1)"
  let ?f3 = "snd (checkFunctionExists ?D ?f2)"
  let ?found = "\<lparr>getfn_Configuration = Some \<lparr>conf_FunctionArn = Some ''arn:function:fn''\<rparr>\<rparr>"
  have f1: "ensureExecutionRole ?P ?D ?f = (Ok ''arn:role/role'', ?f1)"
    by (simp add: deployer_eval)
  have f2: "on_remote (Build ?P (SourceDir (config ?D))) ?f1 = (Inr ([1, 2, 3], ''03''), ?f2)"
    by (simp add: deployer_eval)
  have f3: "checkFunctionExists ?D ?f2 = (Inr (True, Some ?found), ?f3)"
    by (simp add: deployer_eval)
  have found1: "getfn_Configuration ?found = Some \<lparr>conf_FunctionArn = Some ''arn:function:fn''\<rparr>"
    by simp
  have found2: "conf_FunctionArn \<lparr>conf_FunctionArn = Some ''arn:function:fn''\<rparr>
      = Some ''arn:function:fn''"
    by simp
  have f4: "updateFunction ?D [1, 2, 3] ''arn:role/role'' ?f3 =
      (Some (Wrapped ''failed to update function code'' (ErrorString ''AccessDenied'')),
       snd (updateFunction ?D [1, 2, 3] ''arn:role/role'' ?f3))"
    by (simp add: deployer_eval)
  note step4_update = Deploy_fatal_and_tolerated_steps
    [of ?P ?D ?f, THEN conjunct2, THEN conjunct2, THEN conjunct2, THEN conjunct2, THEN conjunct1,
     rule_format, OF f1 f2 f3 found1 found2 f4]

  txt \<open>Steps 5 to 7 fail after a creation.\<close>
  let ?g = "initial_world (sample_account
             \<lparr>acct_failing := [''AddPermission'', ''PutRetentionPolicy'', ''TagResource'']\<rparr>)
            :: (account, aws_call) world"
  let ?g1 = "snd (ensureExecutionRole ?P ?D ?g)"
  let ?g2 = "snd (on_remote (Build ?P (SourceDir (config ?D))) ?g1)"
  let ?g3 = "snd (checkFunctionExists ?D ?g2)"
  have g1: "ensureExecutionRole ?P ?D ?g = (Ok ''arn:role/role'', ?g1)"
    by (simp add: deployer_eval)
  have g2: "on_remote (Build ?P (SourceDir (config ?D))) ?g1 = (Inr ([1, 2, 3], ''03''), ?g2)"
    by (simp add: deployer_eval)
  have g3: "checkFunctionExists ?D ?g2 = (Inr (False, None), ?g3)"
    by (simp add: deployer_eval)
  have g4: "createFunction ?D [1, 2, 3] ''arn:role/role'' ?g3 =
      (Ok ''arn:function:fn'', snd (createFunction ?D [1, 2, 3] ''arn:role/role'' ?g3))"
    by (simp add: deployer_eval)
  note tolerated_create = Deploy_fatal_and_tolerated_steps
    [of ?P ?D ?g, THEN conjunct2, THEN conjunct2, THEN conjunct2, THEN conjunct2, THEN conjunct2,
     THEN conjunct1, rule_format, OF g1 g2 g3 g4, THEN conjunct2, rule_format, OF named]
  have warnings: "stdout (snd (Deploy ?P ?D ?g)) =
     [(''Warning: failed to add resource policy: %v\<newline>'', ErrorString ''AccessDenied''),
      (''Warning: failed to ensure log group: %v\<newline>'',
       Wrapped ''failed to set retention policy'' (ErrorString ''AccessDenied'')),
      (''Warning: failed to tag function: %v\<newline>'', ErrorString ''AccessDenied'')]"
    by (simp add: deployer_eval)

  txt \<open>Steps 5 to 7 fail after an update.\<close>
  let ?h = "initial_world (sample_account
             \<lparr>acct_functions := [''fn''],
              acct_failing := [''AddPermission'', ''CreateLogGroup'', ''TagResource'']\<rparr>)
            :: (account, aws_call) world"
  let ?h1 = "snd (ensureExecutionRole ?P ?D ?h)"
  let ?h2 = "snd (on_remote (Build ?P (SourceDir (config ?D))) ?h1)"
  let ?h3 = "snd (checkFunctionExists ?D ?h2)"
  have h1: "ensureExecutionRole ?P ?D ?h = (Ok ''arn:role/role'', ?h1)"
    by (simp add: deployer_eval)
  have h2: "on_remote (Build ?P (SourceDir (config ?D))) ?h1 = (Inr ([1, 2, 3], ''03''), ?h2)"
    by (simp add: deployer_eval)
  have h3: "checkFunctionExists ?D ?h2 = (Inr (True, Some ?found), ?h3)"
    by (simp add: deployer_eval)
  have h4: "updateFunction ?D [1, 2, 3] ''arn:role/role'' ?h3 =
      (None, snd (updateFunction ?D [1, 2, 3] ''arn:role/role'' ?h3))"
    by (simp add: deployer_eval)
  note tolerated_update = Deploy_fatal_and_tolerated_steps
    [of ?P ?D ?h, THEN conjunct2, THEN conjunct2, THEN conjunct2, THEN conjunct2, THEN conjunct2,
     THEN conjunct2, rule_format, OF h1 h2 h3 found1 found2 h4, THEN conjunct2, rule_format,
     OF named]
  show ?thesis
    using step1 step2 step3 step4_create step4_update tolerated_create tolerated_update
      warnings conf
    by simp
qed

end
